theory Spec2Isabelle
  imports Main "HOL-Library.AList"
begin

text \<open>
  The backend of the Schneider gateway API: \<open>app/core/backend.py\<close>, with the
  configuration functions of \<open>app/core/config.py\<close> and the routes of
  \<open>app/api/routes.py\<close>, which is what \<open>app/main.py\<close> serves. The repository also
  keeps \<open>schneider_gateway_fastapi.py\<close>, the earlier single-file version of the same
  backend and routes. Its dispatch on device type and action and its login on a response
  are the same code; it has no handler for a \<open>requests.RequestException\<close> in
  \<open>is_cookie_valid\<close>, \<open>login\<close>, \<open>control_device\<close> and \<open>read_device_status\<close>. Where
  the two differ, the model follows the application.
\<close>

section \<open>Values exchanged with the gateway\<close>

text \<open>
  JSON values: the RPC parameter objects the backend builds, and the bodies the gateway
  returns. An object is an association list in insertion order, as a Python dict is.
\<close>

datatype json =
    JNull
  | JBool bool
  | JInt int
  | JStr string
  | JList "json list"
  | JObj "(string \<times> json) list"

text \<open>
  The exceptions the program raises. \<open>HTTPException\<close> is FastAPI's, with its status
  code and detail; \<open>KeyError\<close> is a subscript on a dict that lacks the key;
  \<open>Exception\<close> is any other exception, with its message.
\<close>

datatype exn =
    HTTPException int string
  | KeyError string
  | Exception string

text \<open>\<open>str(e)\<close>, for the exceptions the routes turn into a status 500.\<close>

fun exn_str :: "exn \<Rightarrow> string" where
  "exn_str (HTTPException c d) = d"
| "exn_str (KeyError k) = [CHR 0x27] @ k @ [CHR 0x27]"
| "exn_str (Exception m) = m"

datatype http_method = GET | POST

record request =
  req_method :: http_method
  url :: string
  headers :: "(string \<times> string) list"
  json_payload :: "json option"

text \<open>
  What \<open>response.json()\<close> does: it returns the parsed body, or raises. Which exception
  a body that is not JSON raises depends on the version of the requests library: a
  \<open>requests.JSONDecodeError\<close> (a \<open>RequestException\<close>) or a plain \<open>ValueError\<close>.
\<close>

datatype json_outcome =
    JsonValue json
  | JsonRequestException string
  | JsonOtherException string

record response =
  status_code :: int
  cookies :: "string \<rightharpoonup> string"
  resp_json :: json_outcome

text \<open>
  The outcome of \<open>requests.get\<close> or \<open>requests.post\<close>: a response, or a
  \<open>requests.RequestException\<close> (connection refused, timeout, ...) with its message.
\<close>

datatype net_result =
    Response response
  | RequestException string

section \<open>Configuration (app/core/config.py) and the backend object\<close>

record device_config =
  location :: string
  dev_type :: string
  entity :: json
  ir_codes :: "(string \<rightharpoonup> int list) option"

record config =
  cfg_gateway_ip :: string
  cfg_username :: string
  cfg_password :: string
  cfg_cookie :: "string option"
  cfg_devices :: "string \<rightharpoonup> device_config"

text \<open>
  The environment of a run: what the gateway answers to the n-th request the process
  sends, what \<open>int(time.time())\<close> reads and whether writing the configuration file
  fails (with the message of the exception), each at the moment n requests have been sent.
\<close>

record env =
  gateway :: "nat \<Rightarrow> request \<Rightarrow> net_result"
  clock :: "nat \<Rightarrow> int"
  disk_error :: "nat \<Rightarrow> string option"

text \<open>
  The state: the fields of the \<open>SchneiderGatewayBackend\<close> object, the content of the
  configuration file, and the requests sent so far, oldest first.
\<close>

record state =
  config :: config
  base_url :: string
  cookie :: string
  username :: string
  password :: string
  stored_config :: config
  sent :: "request list"

text \<open>\<open>SchneiderGatewayBackend.__init__\<close>, on the configuration \<open>load_config\<close> read.\<close>

definition init_backend :: "config \<Rightarrow> state" where
  "init_backend cfg =
     \<lparr> config = cfg,
       base_url = ''http://'' @ cfg_gateway_ip cfg,
       cookie = (case cfg_cookie cfg of None \<Rightarrow> '''' | Some c \<Rightarrow> c),
       username = cfg_username cfg,
       password = cfg_password cfg,
       stored_config = cfg,
       sent = [] \<rparr>"

text \<open>\<open>save_config\<close>: writes the configuration, or re-raises what the write raised.\<close>

definition save_config :: "env \<Rightarrow> config \<Rightarrow> state \<Rightarrow> (exn + unit) \<times> state" where
  "save_config e cfg s =
     (case disk_error e (length (sent s)) of
        None \<Rightarrow> (Inr (), s\<lparr>stored_config := cfg\<rparr>)
      | Some msg \<Rightarrow> (Inl (Exception msg), s))"

section \<open>Library functions the backend calls\<close>

text \<open>\<open>base64.b64encode\<close> on the bytes of a string.\<close>

definition b64_char :: "nat \<Rightarrow> char" where
  "b64_char n =
     ''ABCDEFGHIJKLMNOPQRSTUVWXYZabcdefghijklmnopqrstuvwxyz0123456789+/'' ! n"

fun b64_bytes :: "nat list \<Rightarrow> string" where
  "b64_bytes [] = []"
| "b64_bytes [a] =
     [b64_char (a div 4), b64_char ((a mod 4) * 16), CHR ''='', CHR ''='']"
| "b64_bytes [a, b] =
     [b64_char (a div 4), b64_char ((a mod 4) * 16 + b div 16),
      b64_char ((b mod 16) * 4), CHR ''='']"
| "b64_bytes (a # b # c # rest) =
     [b64_char (a div 4), b64_char ((a mod 4) * 16 + b div 16),
      b64_char ((b mod 16) * 4 + c div 64), b64_char (c mod 64)] @ b64_bytes rest"

definition b64encode :: "string \<Rightarrow> string" where
  "b64encode s = b64_bytes (map of_char s)"

text \<open>\<open>str\<close> of an integer, as an f-string formats it.\<close>

definition digit_char :: "nat \<Rightarrow> char" where
  "digit_char n = ''0123456789'' ! n"

fun str_nat :: "nat \<Rightarrow> string" where
  "str_nat n = (if n < 10 then [digit_char n] else str_nat (n div 10) @ [digit_char (n mod 10)])"

declare str_nat.simps [simp del]

definition str_int :: "int \<Rightarrow> string" where
  "str_int i = (if i < 0 then ''-'' @ str_nat (nat (- i)) else str_nat (nat i))"

text \<open>
  \<open>requests.get\<close> and \<open>requests.post\<close>: the request goes out, and the gateway's answer
  to it comes back.
\<close>

definition send :: "env \<Rightarrow> request \<Rightarrow> state \<Rightarrow> net_result \<times> state" where
  "send e req s = (gateway e (length (sent s)) req, s\<lparr>sent := sent s @ [req]\<rparr>)"

section \<open>Session handling (app/core/backend.py)\<close>

definition get_auth_header :: "state \<Rightarrow> (string \<times> string) list" where
  "get_auth_header s =
     [(''Authorization'', ''Basic '' @ b64encode (username s @ '':'' @ password s))]"

definition is_cookie_valid :: "env \<Rightarrow> state \<Rightarrow> bool \<times> state" where
  "is_cookie_valid e s =
     (let u = base_url s @ ''/home.html'';
          hs = (''Cookie'', ''user_id='' @ cookie s) # get_auth_header s
      in case send e \<lparr>req_method = GET, url = u, headers = hs, json_payload = None\<rparr> s of
           (Response r, s') \<Rightarrow> (status_code r = 200, s')
         | (RequestException msg, s') \<Rightarrow> (False, s'))"

definition login :: "env \<Rightarrow> state \<Rightarrow> (exn + unit) \<times> state" where
  "login e s =
     (let u = base_url s @ ''/cgi-bin/admin'';
          hs = get_auth_header s
      in case send e \<lparr>req_method = GET, url = u, headers = hs, json_payload = None\<rparr> s of
           (Response r, s1) \<Rightarrow>
             if status_code r = 200 then
               let c = (case cookies r ''user_id'' of None \<Rightarrow> '''' | Some v \<Rightarrow> v);
                   s2 = s1\<lparr>cookie := c\<rparr>;
                   s3 = s2\<lparr>config := (config s2)\<lparr>cfg_cookie := Some (cookie s2)\<rparr>\<rparr>
               in save_config e (config s3) s3
             else (Inl (HTTPException 401 ''Login failed''), s1)
         | (RequestException msg, s1) \<Rightarrow>
             (Inl (HTTPException 500 (''Login request failed: '' @ msg)), s1))"

text \<open>
  The first statement of \<open>control_device\<close> and of \<open>read_device_status\<close>:
  \<open>if not self.is_cookie_valid(): self.login()\<close>.
\<close>

definition ensure_session :: "env \<Rightarrow> state \<Rightarrow> (exn + unit) \<times> state" where
  "ensure_session e s =
     (case is_cookie_valid e s of
        (True, s1) \<Rightarrow> (Inr (), s1)
      | (False, s1) \<Rightarrow> login e s1)"

section \<open>Device control (app/core/backend.py, \<open>control_device\<close>)\<close>

text \<open>\<open>device_config['ir_codes'][key]\<close>: either subscript raises \<open>KeyError\<close>.\<close>

definition ir_code_item :: "device_config \<Rightarrow> string \<Rightarrow> exn + int list" where
  "ir_code_item dc k =
     (case ir_codes dc of
        None \<Rightarrow> Inl (KeyError ''ir_codes'')
      | Some table \<Rightarrow> (case table k of None \<Rightarrow> Inl (KeyError k) | Some code \<Rightarrow> Inr code))"

text \<open>\<open>device_config['ir_codes'].get(key, [])\<close>.\<close>

definition ir_code_get :: "device_config \<Rightarrow> string \<Rightarrow> exn + int list" where
  "ir_code_get dc k =
     (case ir_codes dc of
        None \<Rightarrow> Inl (KeyError ''ir_codes'')
      | Some table \<Rightarrow> Inr (case table k of None \<Rightarrow> [] | Some code \<Rightarrow> code))"

text \<open>The value of \<open>ir_code\<close> when the AC branch builds its parameters.\<close>

definition ac_ir_code ::
  "device_config \<Rightarrow> string \<Rightarrow> string option \<Rightarrow> int option \<Rightarrow> exn + int list" where
  "ac_ir_code dc action ac_mode temperature =
     (if action = ''on'' then ir_code_item dc ''power_on''
      else if action = ''off'' then ir_code_item dc ''power_off''
      else if action = ''set_mode'' then
        (if ac_mode = Some ''cool'' then ir_code_item dc ''cool_mode''
         else if ac_mode = Some ''heat'' then ir_code_item dc ''heat_mode''
         else Inr [])
      else if action = ''set_temperature'' then
        (case temperature of
           None \<Rightarrow> Inr []
         | Some t \<Rightarrow> ir_code_get dc (''temp_'' @ str_int t))
      else Inr [])"

text \<open>
  The dispatch on the device type and the action: the RPC method and its parameters, or
  the exception raised.
\<close>

definition rpc_command ::
  "device_config \<Rightarrow> string \<Rightarrow> int option \<Rightarrow> string option \<Rightarrow> int option
     \<Rightarrow> exn + (string \<times> json)" where
  "rpc_command dc action level ac_mode temperature =
     (if dev_type dc = ''DIMMER'' then
        (if action = ''on'' then
           Inr (''RPC_ZCL_Set_OnOffTog'', JObj [(''entity'', entity dc), (''action'', JInt 1)])
         else if action = ''off'' then
           Inr (''RPC_ZCL_Set_OnOffTog'', JObj [(''entity'', entity dc), (''action'', JInt 0)])
         else if action = ''dim'' then
           (case level of
              None \<Rightarrow> Inl (HTTPException 400 ''Level is required for dimming'')
            | Some l \<Rightarrow>
                Inr (''RPC_ZCL_Move_To'',
                     JObj [(''entity'', entity dc), (''level'', JInt l), (''transTime'', JInt 0)]))
         else Inl (HTTPException 400 ''Invalid action for DIMMER''))
      else if dev_type dc = ''SWITCH'' then
        (if action \<notin> set [''on'', ''off''] then
           Inl (HTTPException 400 ''Invalid action for SWITCH'')
         else
           Inr (''RPC_ZCL_Set_OnOffTog'',
                JObj [(''entity'', entity dc),
                      (''action'', JInt (if action = ''on'' then 1 else 0))]))
      else if dev_type dc = ''AC'' then
        (case ac_ir_code dc action ac_mode temperature of
           Inl ex \<Rightarrow> Inl ex
         | Inr ir_code \<Rightarrow>
             Inr (''RPC_ZCL_Send_IR_Code'',
                  JObj [(''entity'', entity dc), (''index'', JInt 1), (''repeat'', JInt 0),
                        (''codeType'', JInt 0), (''irCode'', JList (map JInt ir_code))]))
      else Inl (HTTPException 400 ''Unsupported device type''))"

text \<open>The POST to the RPC bridge: the JSON-RPC envelope and the three headers.\<close>

definition rpc_request :: "env \<Rightarrow> state \<Rightarrow> string \<Rightarrow> json \<Rightarrow> request" where
  "rpc_request e s method_name params =
     \<lparr> req_method = POST,
       url = base_url s @ ''/cgi-bin/rpc_bridge'',
       headers = [(''Cookie'', ''user_id='' @ cookie s),
                  (''Content-Type'', ''application/json'')] @ get_auth_header s,
       json_payload = Some (JObj [(''jsonrpc'', JStr ''2.0''), (''method'', JStr method_name),
                                  (''params'', params),
                                  (''transId'', JInt (clock e (length (sent s))))]) \<rparr>"

definition control_device ::
  "env \<Rightarrow> state \<Rightarrow> string \<Rightarrow> string \<Rightarrow> int option \<Rightarrow> string option \<Rightarrow> int option
     \<Rightarrow> (exn + json) \<times> state" where
  "control_device e s device_name action level ac_mode temperature =
     (case ensure_session e s of
        (Inl ex, s1) \<Rightarrow> (Inl ex, s1)
      | (Inr _, s1) \<Rightarrow>
          (case cfg_devices (config s1) device_name of
             None \<Rightarrow>
               (Inl (HTTPException 404
                       (''Device '' @ device_name @ '' not found in configuration'')), s1)
           | Some dc \<Rightarrow>
               (case rpc_command dc action level ac_mode temperature of
                  Inl ex \<Rightarrow> (Inl ex, s1)
                | Inr (method_name, params) \<Rightarrow>
                    (case send e (rpc_request e s1 method_name params) s1 of
                       (Response r, s2) \<Rightarrow>
                         if status_code r \<noteq> 200 then
                           (Inl (HTTPException (status_code r) ''Device control failed''), s2)
                         else
                           (case resp_json r of
                              JsonValue j \<Rightarrow> (Inr j, s2)
                            | JsonRequestException msg \<Rightarrow>
                                (Inl (HTTPException 500
                                        (''Device control request failed: '' @ msg)), s2)
                            | JsonOtherException msg \<Rightarrow> (Inl (Exception msg), s2))
                     | (RequestException msg, s2) \<Rightarrow>
                         (Inl (HTTPException 500
                                 (''Device control request failed: '' @ msg)), s2)))))"

section \<open>Device status (app/core/backend.py, \<open>read_device_status\<close>)\<close>

text \<open>The list \<open>methods\<close>, by device type.\<close>

definition status_methods :: "device_config \<Rightarrow> exn + string list" where
  "status_methods dc =
     (if dev_type dc = ''DIMMER'' then Inr [''RPC_ZCL_Get_OnOff'', ''RPC_ZCL_Get_Level'']
      else if dev_type dc = ''SWITCH'' then Inr [''RPC_ZCL_Get_OnOff'']
      else Inl (HTTPException 400 ''Unsupported device type for status reading''))"

text \<open>
  The loop \<open>for method in methods\<close>, with the dict \<open>results\<close> it fills: an exception
  leaves the loop and the function.
\<close>

fun query_methods ::
  "env \<Rightarrow> device_config \<Rightarrow> string list \<Rightarrow> (string \<times> json) list \<Rightarrow> state
     \<Rightarrow> (exn + (string \<times> json) list) \<times> state" where
  "query_methods e dc [] results s = (Inr results, s)"
| "query_methods e dc (m # ms) results s =
     (case send e (rpc_request e s m (JObj [(''entity'', entity dc)])) s of
        (Response r, s') \<Rightarrow>
          if status_code r \<noteq> 200 then
            (Inl (HTTPException (status_code r) ''Device status read failed''), s')
          else
            (case resp_json r of
               JsonValue j \<Rightarrow> query_methods e dc ms (AList.update m j results) s'
             | JsonRequestException msg \<Rightarrow>
                 (Inl (HTTPException 500 (''Device status read request failed: '' @ msg)), s')
             | JsonOtherException msg \<Rightarrow> (Inl (Exception msg), s'))
      | (RequestException msg, s') \<Rightarrow>
          (Inl (HTTPException 500 (''Device status read request failed: '' @ msg)), s'))"

definition read_device_status ::
  "env \<Rightarrow> state \<Rightarrow> string \<Rightarrow> (exn + (string \<times> json) list) \<times> state" where
  "read_device_status e s device_name =
     (case ensure_session e s of
        (Inl ex, s1) \<Rightarrow> (Inl ex, s1)
      | (Inr _, s1) \<Rightarrow>
          (case cfg_devices (config s1) device_name of
             None \<Rightarrow>
               (Inl (HTTPException 404
                       (''Device '' @ device_name @ '' not found in configuration'')), s1)
           | Some dc \<Rightarrow>
               (case status_methods dc of
                  Inl ex \<Rightarrow> (Inl ex, s1)
                | Inr methods \<Rightarrow> query_methods e dc methods [] s1)))"

section \<open>The HTTP routes (app/api/routes.py)\<close>

text \<open>
  An error response is its status code and detail. A route re-raises an
  \<open>HTTPException\<close> as it is and turns any other exception into a status 500. The
  model gives what the route function returns or raises; FastAPI's check of a returned
  value against the response model comes after it.
\<close>

fun error_response :: "exn \<Rightarrow> int \<times> string" where
  "error_response (HTTPException c d) = (c, d)"
| "error_response ex = (500, exn_str ex)"

definition route_control_device ::
  "env \<Rightarrow> state \<Rightarrow> string \<Rightarrow> string \<Rightarrow> int option \<Rightarrow> string option \<Rightarrow> int option
     \<Rightarrow> ((int \<times> string) + json) \<times> state" where
  "route_control_device e s device_name action level ac_mode temperature =
     (case control_device e s device_name action level ac_mode temperature of
        (Inr result, s') \<Rightarrow> (Inr (JObj [(''status'', JStr ''success''), (''result'', result)]), s')
      | (Inl ex, s') \<Rightarrow> (Inl (error_response ex), s'))"

definition route_get_device_status ::
  "env \<Rightarrow> state \<Rightarrow> string \<Rightarrow> ((int \<times> string) + json) \<times> state" where
  "route_get_device_status e s device_name =
     (case read_device_status e s device_name of
        (Inr result, s') \<Rightarrow>
          (Inr (JObj [(''status'', JStr ''success''), (''result'', JObj result)]), s')
      | (Inl ex, s') \<Rightarrow> (Inl (error_response ex), s'))"

section \<open>Vocabulary of the properties\<close>

text \<open>The request \<open>is_cookie_valid\<close> sends, and the one \<open>login\<close> sends.\<close>

definition probe_request :: "state \<Rightarrow> request" where
  "probe_request s =
     \<lparr> req_method = GET,
       url = base_url s @ ''/home.html'',
       headers = (''Cookie'', ''user_id='' @ cookie s) # get_auth_header s,
       json_payload = None \<rparr>"

definition login_request :: "state \<Rightarrow> request" where
  "login_request s =
     \<lparr> req_method = GET,
       url = base_url s @ ''/cgi-bin/admin'',
       headers = get_auth_header s,
       json_payload = None \<rparr>"

text \<open>A request seen on the wire: a validity probe, a login, an RPC call.\<close>

definition is_probe :: "state \<Rightarrow> request \<Rightarrow> bool" where
  "is_probe s r = (req_method r = GET \<and> url r = base_url s @ ''/home.html'')"

definition is_login :: "state \<Rightarrow> request \<Rightarrow> bool" where
  "is_login s r = (req_method r = GET \<and> url r = base_url s @ ''/cgi-bin/admin'')"

definition is_rpc :: "state \<Rightarrow> request \<Rightarrow> bool" where
  "is_rpc s r = (req_method r = POST \<and> url r = base_url s @ ''/cgi-bin/rpc_bridge'')"

text \<open>The requests sent between an earlier state and a later one.\<close>

definition new_requests :: "state \<Rightarrow> state \<Rightarrow> request list" where
  "new_requests s s' = drop (length (sent s)) (sent s')"

text \<open>A member of a JSON object; the method and the parameters of an RPC request.\<close>

definition json_member :: "string \<Rightarrow> json \<Rightarrow> json option" where
  "json_member k j = (case j of JObj kvs \<Rightarrow> map_of kvs k | _ \<Rightarrow> None)"

definition rpc_method_of :: "request \<Rightarrow> json option" where
  "rpc_method_of r = (case json_payload r of None \<Rightarrow> None | Some p \<Rightarrow> json_member ''method'' p)"

definition rpc_params_of :: "request \<Rightarrow> json option" where
  "rpc_params_of r = (case json_payload r of None \<Rightarrow> None | Some p \<Rightarrow> json_member ''params'' p)"

text \<open>The gateway's answer lets a call return: status 200 and a body that is JSON.\<close>

definition answer_ok :: "net_result \<Rightarrow> bool" where
  "answer_ok a =
     (case a of
        Response r \<Rightarrow>
          status_code r = 200 \<and> (case resp_json r of JsonValue j \<Rightarrow> True | _ \<Rightarrow> False)
      | RequestException msg \<Rightarrow> False)"

text \<open>
  The session protocol of one device operation that takes \<open>s\<close> to \<open>s'\<close>: the first
  request is the validity probe and no other request is one; when the probe says invalid,
  the second request is the login and no other request is one; when it says valid, no
  request is a login; every request after these is an RPC call.
\<close>

definition session_protocol :: "env \<Rightarrow> state \<Rightarrow> state \<Rightarrow> bool" where
  "session_protocol e s s' =
     (let new = new_requests s s'; valid = fst (is_cookie_valid e s)
      in take 1 new = [probe_request s]
         \<and> length (filter (is_probe s) new) = 1
         \<and> (if valid then filter (is_login s) new = []
            else take 1 (drop 1 new) = [login_request s]
                 \<and> length (filter (is_login s) new) = 1)
         \<and> list_all (is_rpc s) (drop (if valid then 1 else 2) new))"

text \<open>
  The RPC calls among the requests sent between two states, each as its method and its
  parameters, in the order they were sent.
\<close>

definition rpc_calls :: "state \<Rightarrow> state \<Rightarrow> (json option \<times> json option) list" where
  "rpc_calls s s' =
     map (\<lambda>r. (rpc_method_of r, rpc_params_of r)) (filter (is_rpc s) (new_requests s s'))"

text \<open>The gateway's answer to the i-th request of the log, and to the last one.\<close>

definition answer_at :: "env \<Rightarrow> state \<Rightarrow> nat \<Rightarrow> net_result" where
  "answer_at e s' i = gateway e i (sent s' ! i)"

definition last_answer :: "env \<Rightarrow> state \<Rightarrow> net_result" where
  "last_answer e s' = answer_at e s' (length (sent s') - 1)"

text \<open>The device has no IR code under the key: no table, or a table without the key.\<close>

definition lacks_ir_code :: "device_config \<Rightarrow> string \<Rightarrow> bool" where
  "lacks_ir_code dc k = (case ir_codes dc of None \<Rightarrow> True | Some table \<Rightarrow> table k = None)"

text \<open>The status code of a route's answer: the error's, or 200.\<close>

definition response_status :: "(int \<times> string) + json \<Rightarrow> int" where
  "response_status r = (case r of Inl (code, detail) \<Rightarrow> code | Inr body \<Rightarrow> 200)"

text \<open>
  How a failed RPC call reaches the HTTP caller. Of a route's outcome: when the last
  request sent was an RPC call, then if that request failed with a \<open>RequestException\<close>
  the outcome is an error response with status 500, and if the gateway answered it with
  a status other than 200 the outcome is an error response with the gateway's own status
  code.
\<close>

definition has_status :: "(int \<times> string) + json \<Rightarrow> int \<Rightarrow> bool" where
  "has_status r c = (case r of Inl (code, detail) \<Rightarrow> code = c | Inr body \<Rightarrow> False)"

definition rpc_failure_surfaced ::
  "env \<Rightarrow> state \<Rightarrow> ((int \<times> string) + json) \<times> state \<Rightarrow> bool" where
  "rpc_failure_surfaced e s out =
     (is_rpc s (last (sent (snd out))) \<longrightarrow>
        (case last_answer e (snd out) of
           RequestException msg \<Rightarrow> has_status (fst out) 500
         | Response r \<Rightarrow> status_code r \<noteq> 200 \<longrightarrow> has_status (fst out) (status_code r)))"

section \<open>A concrete installation, for evaluating the properties\<close>

definition example_lamp :: device_config where
  "example_lamp =
     \<lparr> location = ''living room'', dev_type = ''DIMMER'', entity = JStr ''E1'',
       ir_codes = None \<rparr>"

definition example_switch :: device_config where
  "example_switch =
     \<lparr> location = ''hall'', dev_type = ''SWITCH'', entity = JStr ''E2'', ir_codes = None \<rparr>"

definition example_ac :: device_config where
  "example_ac =
     \<lparr> location = ''bedroom'', dev_type = ''AC'', entity = JStr ''E3'',
       ir_codes = Some [''power_off'' \<mapsto> [1, 2, 3], ''cool_mode'' \<mapsto> [4, 5]] \<rparr>"

definition example_sensor :: device_config where
  "example_sensor =
     \<lparr> location = ''garden'', dev_type = ''SENSOR'', entity = JStr ''E4'', ir_codes = None \<rparr>"

definition example_config :: config where
  "example_config =
     \<lparr> cfg_gateway_ip = ''192.168.1.10'', cfg_username = ''admin'', cfg_password = ''secret'',
       cfg_cookie = Some ''stale'',
       cfg_devices = [''LivingRoomLamp'' \<mapsto> example_lamp, ''HallSwitch'' \<mapsto> example_switch,
                      ''BedroomAC'' \<mapsto> example_ac, ''GardenSensor'' \<mapsto> example_sensor] \<rparr>"

definition example_state :: state where
  "example_state = init_backend example_config"

text \<open>
  A gateway that gives the listed answers in order and then refuses the connection; the
  clock stands still and the configuration file can be written.
\<close>

definition scripted :: "net_result list \<Rightarrow> nat \<Rightarrow> request \<Rightarrow> net_result" where
  "scripted answers n req =
     (if n < length answers then answers ! n else RequestException ''connection refused'')"

definition example_env :: "net_result list \<Rightarrow> env" where
  "example_env answers =
     \<lparr> gateway = scripted answers, clock = (\<lambda>n. 1700000000), disk_error = (\<lambda>n. None) \<rparr>"

text \<open>Answers: a page with a status, a login page that sets cookies, a JSON body.\<close>

definition page :: "int \<Rightarrow> net_result" where
  "page c =
     Response \<lparr> status_code = c, cookies = Map.empty, resp_json = JsonOtherException ''not JSON'' \<rparr>"

definition login_page :: "(string \<rightharpoonup> string) \<Rightarrow> net_result" where
  "login_page cs =
     Response \<lparr> status_code = 200, cookies = cs, resp_json = JsonOtherException ''not JSON'' \<rparr>"

definition json_answer :: "json \<Rightarrow> net_result" where
  "json_answer j = Response \<lparr> status_code = 200, cookies = Map.empty, resp_json = JsonValue j \<rparr>"

section \<open>Facts about sending and the session step\<close>

lemma is_cookie_valid_eq:
  "is_cookie_valid e s =
     (case gateway e (length (sent s)) (probe_request s) of
        Response r \<Rightarrow> status_code r = 200
      | RequestException msg \<Rightarrow> False,
      s\<lparr>sent := sent s @ [probe_request s]\<rparr>)"
  by (simp add: is_cookie_valid_def probe_request_def send_def split: net_result.splits)

lemma login_request_sent [simp]: "login_request (s\<lparr>sent := xs\<rparr>) = login_request s"
  by (simp add: login_request_def get_auth_header_def)

lemma login_sent: "sent (snd (login e s)) = sent s @ [login_request s]"
  by (simp add: login_def login_request_def send_def save_config_def Let_def
           split: net_result.splits option.splits)

lemma login_frame:
  "base_url (snd (login e s)) = base_url s"
  "username (snd (login e s)) = username s"
  "password (snd (login e s)) = password s"
  "cfg_devices (config (snd (login e s))) = cfg_devices (config s)"
  by (simp_all add: login_def send_def save_config_def Let_def
           split: net_result.splits option.splits)

lemma ensure_session_sent:
  "sent (snd (ensure_session e s)) =
     sent s @ probe_request s # (if fst (is_cookie_valid e s) then [] else [login_request s])"
  by (simp add: ensure_session_def is_cookie_valid_eq login_sent split: bool.splits)

lemma ensure_session_frame:
  "base_url (snd (ensure_session e s)) = base_url s"
  "username (snd (ensure_session e s)) = username s"
  "password (snd (ensure_session e s)) = password s"
  "cfg_devices (config (snd (ensure_session e s))) = cfg_devices (config s)"
  by (simp_all add: ensure_session_def is_cookie_valid_eq login_frame split: bool.splits)

lemmas example_defs =
  example_state_def init_backend_def example_config_def example_env_def scripted_def
  page_def login_page_def json_answer_def example_lamp_def example_switch_def example_ac_def
  example_sensor_def

section \<open>The validity probe\<close>

text \<open>
  Claim C8. \<open>is_cookie_valid\<close> returns true exactly when the gateway answers the
  authenticated probe (the GET of the home page, with the cookie and the Basic-Auth
  header) with status 200. When the request fails with a \<open>RequestException\<close>, it returns
  false: the function has a boolean result on every path, and no exception leaves it.
  Either way it sends the probe and nothing else.
\<close>

theorem is_cookie_valid_iff_probe_status_200:
  "(fst (is_cookie_valid e s) \<longleftrightarrow>
      (\<exists>r. gateway e (length (sent s)) (probe_request s) = Response r \<and> status_code r = 200))
   \<and> (\<forall>msg. gateway e (length (sent s)) (probe_request s) = RequestException msg
         \<longrightarrow> fst (is_cookie_valid e s) = False)
   \<and> new_requests s (snd (is_cookie_valid e s)) = [probe_request s]"
  by (auto simp: is_cookie_valid_eq new_requests_def split: net_result.splits)

theorem is_cookie_valid_iff_probe_status_200_witness:
  "gateway (example_env []) (length (sent example_state)) (probe_request example_state)
     = RequestException ''connection refused''
   \<and> fst (is_cookie_valid (example_env []) example_state) = False
   \<and> fst (is_cookie_valid (example_env [page 200]) example_state) = True
   \<and> fst (is_cookie_valid (example_env [page 403]) example_state) = False"
  using is_cookie_valid_iff_probe_status_200 [of "example_env []" example_state]
    is_cookie_valid_iff_probe_status_200 [of "example_env [page 200]" example_state]
    is_cookie_valid_iff_probe_status_200 [of "example_env [page 403]" example_state]
  by (simp add: example_defs)

section \<open>Login\<close>

lemma login_eq:
  "login e s =
     (case gateway e (length (sent s)) (login_request s) of
        Response r \<Rightarrow>
          if status_code r = 200 then
            let c = (case cookies r ''user_id'' of None \<Rightarrow> '''' | Some v \<Rightarrow> v);
                s' = s\<lparr>sent := sent s @ [login_request s], cookie := c,
                       config := (config s)\<lparr>cfg_cookie := Some c\<rparr>\<rparr>
            in (case disk_error e (Suc (length (sent s))) of
                  None \<Rightarrow> (Inr (), s'\<lparr>stored_config := config s'\<rparr>)
                | Some msg \<Rightarrow> (Inl (Exception msg), s'))
          else (Inl (HTTPException 401 ''Login failed''), s\<lparr>sent := sent s @ [login_request s]\<rparr>)
      | RequestException msg \<Rightarrow>
          (Inl (HTTPException 500 (''Login request failed: '' @ msg)),
           s\<lparr>sent := sent s @ [login_request s]\<rparr>))"
  by (simp add: login_def login_request_def send_def save_config_def Let_def
           split: net_result.splits option.splits)

text \<open>
  Claim C3, as amended. \<open>login\<close> fails with status 401 when the gateway answers the
  Basic-Auth login request with a status other than 200, and with status 500 (not 401)
  when the request itself fails; in both cases the cookie, the configuration and the
  configuration file stay as they were. On status 200 it takes the \<open>user_id\<close> cookie from
  the response, stores it in the backend and in the configuration, and writes the
  configuration to the file (the write succeeding).
\<close>

theorem login_outcomes:
  "(\<forall>r. gateway e (length (sent s)) (login_request s) = Response r \<and> status_code r \<noteq> 200
        \<longrightarrow> fst (login e s) = Inl (HTTPException 401 ''Login failed'')
            \<and> cookie (snd (login e s)) = cookie s
            \<and> config (snd (login e s)) = config s
            \<and> stored_config (snd (login e s)) = stored_config s)
   \<and> (\<forall>msg. gateway e (length (sent s)) (login_request s) = RequestException msg
        \<longrightarrow> fst (login e s) = Inl (HTTPException 500 (''Login request failed: '' @ msg))
            \<and> cookie (snd (login e s)) = cookie s
            \<and> config (snd (login e s)) = config s
            \<and> stored_config (snd (login e s)) = stored_config s)
   \<and> (\<forall>r v. gateway e (length (sent s)) (login_request s) = Response r \<and> status_code r = 200
          \<and> cookies r ''user_id'' = Some v \<and> disk_error e (Suc (length (sent s))) = None
        \<longrightarrow> fst (login e s) = Inr ()
            \<and> cookie (snd (login e s)) = v
            \<and> config (snd (login e s)) = (config s)\<lparr>cfg_cookie := Some v\<rparr>
            \<and> stored_config (snd (login e s)) = (config s)\<lparr>cfg_cookie := Some v\<rparr>)"
  by (simp add: login_eq Let_def)

theorem login_outcomes_witness:
  "gateway (example_env [page 403]) (length (sent example_state)) (login_request example_state)
     = page 403
   \<and> fst (login (example_env [page 403]) example_state) = Inl (HTTPException 401 ''Login failed'')
   \<and> gateway (example_env []) (length (sent example_state)) (login_request example_state)
     = RequestException ''connection refused''
   \<and> fst (login (example_env []) example_state)
     = Inl (HTTPException 500 ''Login request failed: connection refused'')
   \<and> fst (login (example_env [login_page [''user_id'' \<mapsto> ''abc123'']]) example_state) = Inr ()
   \<and> cookie (snd (login (example_env [login_page [''user_id'' \<mapsto> ''abc123'']]) example_state))
     = ''abc123''
   \<and> cfg_cookie (stored_config
        (snd (login (example_env [login_page [''user_id'' \<mapsto> ''abc123'']]) example_state)))
     = Some ''abc123''"
  using login_outcomes [of "example_env [page 403]" example_state]
    login_outcomes [of "example_env []" example_state]
    login_outcomes [of "example_env [login_page [''user_id'' \<mapsto> ''abc123'']]" example_state]
  by (simp add: example_defs)

text \<open>
  The claim as stated fails when the connection fails: \<open>login\<close> raises an
  \<open>HTTPException\<close> with status 500, and a control request that needed the login answers
  500, not 401.
\<close>

theorem login_transport_failure_is_500:
  "gateway (example_env [page 403]) 1 (login_request example_state)
     = RequestException ''connection refused''
   \<and> fst (login (example_env []) example_state)
     = Inl (HTTPException 500 ''Login request failed: connection refused'')
   \<and> fst (login (example_env []) example_state) \<noteq> Inl (HTTPException 401 ''Login failed'')
   \<and> fst (route_control_device (example_env [page 403]) example_state
            ''LivingRoomLamp'' ''on'' None None None)
     = Inl (500, ''Login request failed: connection refused'')"
  by (simp add: login_eq route_control_device_def control_device_def ensure_session_def
        is_cookie_valid_eq probe_request_def login_request_def get_auth_header_def example_defs)

text \<open>
  Claim C10. When the gateway answers the login request with status 200 and the response
  carries no \<open>user_id\<close> cookie, \<open>login\<close> sets the session cookie to the empty string,
  writes it to the configuration file (the write succeeding) and returns without an
  exception.
\<close>

theorem login_without_user_id_cookie:
  assumes "gateway e (length (sent s)) (login_request s) = Response r"
    and "status_code r = 200"
    and "cookies r ''user_id'' = None"
    and "disk_error e (Suc (length (sent s))) = None"
  shows "fst (login e s) = Inr ()
    \<and> cookie (snd (login e s)) = ''''
    \<and> cfg_cookie (config (snd (login e s))) = Some ''''
    \<and> cfg_cookie (stored_config (snd (login e s))) = Some ''''
    \<and> stored_config (snd (login e s)) = config (snd (login e s))"
  using assms by (simp add: login_eq)

theorem login_without_user_id_cookie_witness:
  "gateway (example_env [login_page Map.empty]) (length (sent example_state))
       (login_request example_state) = login_page Map.empty
   \<and> cfg_cookie (stored_config example_state) = Some ''stale''
   \<and> fst (login (example_env [login_page Map.empty]) example_state) = Inr ()
   \<and> cookie (snd (login (example_env [login_page Map.empty]) example_state)) = ''''
   \<and> cfg_cookie (stored_config (snd (login (example_env [login_page Map.empty]) example_state)))
     = Some ''''"
  using login_without_user_id_cookie [of "example_env [login_page Map.empty]" example_state
      "\<lparr>status_code = 200, cookies = Map.empty, resp_json = JsonOtherException ''not JSON''\<rparr>"]
  by (simp add: example_defs)

section \<open>The requests of a device operation\<close>

lemma rpc_request_is_rpc: "base_url s1 = base_url s \<Longrightarrow> is_rpc s (rpc_request e s1 m p)"
  by (simp add: is_rpc_def rpc_request_def)

lemma is_rpc_sent [simp]: "is_rpc (s\<lparr>sent := xs\<rparr>) = is_rpc s"
  by (rule ext) (simp add: is_rpc_def)

lemma query_methods_requests:
  "\<exists>posts. sent (snd (query_methods e dc ms results s1)) = sent s1 @ posts
     \<and> list_all (is_rpc s1) posts"
proof (induction ms arbitrary: results s1)
  case Nil
  then show ?case by simp
next
  case (Cons m ms)
  let ?req = "rpc_request e s1 m (JObj [(''entity'', entity dc)])"
  let ?s2 = "s1\<lparr>sent := sent s1 @ [?req]\<rparr>"
  have rpc: "is_rpc s1 ?req" by (simp add: rpc_request_is_rpc)
  show ?case
  proof (cases "gateway e (length (sent s1)) ?req")
    case (RequestException msg)
    then show ?thesis using rpc by (simp add: send_def)
  next
    case (Response r)
    show ?thesis
    proof (cases "status_code r = 200")
      case False
      then show ?thesis using Response rpc by (simp add: send_def)
    next
      case True
      show ?thesis
      proof (cases "resp_json r")
        case (JsonValue j)
        from Cons.IH [of "AList.update m j results" ?s2]
        obtain posts where
          "sent (snd (query_methods e dc ms (AList.update m j results) ?s2)) = sent ?s2 @ posts"
          and "list_all (is_rpc ?s2) posts"
          by blast
        then show ?thesis using Response True JsonValue rpc
          by (simp add: send_def)
      next
        case (JsonRequestException msg)
        then show ?thesis using Response True rpc by (simp add: send_def)
      next
        case (JsonOtherException msg)
        then show ?thesis using Response True rpc by (simp add: send_def)
      qed
    qed
  qed
qed

lemma control_device_requests:
  "\<exists>posts. sent (snd (control_device e s device_name action level ac_mode temperature))
       = sent (snd (ensure_session e s)) @ posts
     \<and> list_all (is_rpc s) posts"
proof (cases "ensure_session e s")
  case (Pair res s1)
  have b: "base_url s1 = base_url s"
    using ensure_session_frame(1) [of e s] Pair by simp
  show ?thesis
    using Pair rpc_request_is_rpc [OF b]
    by (auto simp: control_device_def send_def
          split: sum.splits option.splits net_result.splits json_outcome.splits)
qed

lemma read_device_status_requests:
  "\<exists>posts. sent (snd (read_device_status e s device_name))
       = sent (snd (ensure_session e s)) @ posts
     \<and> list_all (is_rpc s) posts"
proof (cases "ensure_session e s")
  case (Pair res s1)
  have b: "base_url s1 = base_url s"
    using ensure_session_frame(1) [of e s] Pair by simp
  have "is_rpc s = is_rpc s1"
    by (rule ext) (simp add: is_rpc_def b)
  then show ?thesis
    using Pair query_methods_requests [of e _ _ "[]" s1]
    by (auto simp: read_device_status_def split: sum.splits option.splits)
qed

lemma session_protocol_intro:
  assumes "sent s' = sent (snd (ensure_session e s)) @ posts"
    and "list_all (is_rpc s) posts"
  shows "session_protocol e s s'"
proof -
  have no_probe: "filter (is_probe s) posts = []"
    using assms(2) by (induction posts) (auto simp: is_rpc_def is_probe_def)
  have no_login: "filter (is_login s) posts = []"
    using assms(2) by (induction posts) (auto simp: is_rpc_def is_login_def)
  have new: "new_requests s s' =
      probe_request s # (if fst (is_cookie_valid e s) then [] else [login_request s]) @ posts"
    by (simp add: new_requests_def assms(1) ensure_session_sent)
  have [simp]: "is_probe s (probe_request s)" "\<not> is_probe s (login_request s)"
    "is_login s (login_request s)" "\<not> is_login s (probe_request s)"
    by (simp_all add: is_probe_def is_login_def probe_request_def login_request_def)
  show ?thesis
    unfolding session_protocol_def Let_def new
    using no_probe no_login assms(2) by simp
qed

text \<open>
  Claim C4. In every \<open>control_device\<close> and every \<open>read_device_status\<close> request the
  first request sent is the validity probe, and it is the only probe of the request.
  When the probe says invalid, the login is the very next request and the only login;
  when it says valid, no login is sent. Every further request is an RPC call, so the
  operation itself starts only after the probe and, if there is one, the login.
\<close>

theorem device_operations_follow_session_protocol:
  "session_protocol e s (snd (control_device e s device_name action level ac_mode temperature))
   \<and> session_protocol e s (snd (read_device_status e s device_name))"
proof
  obtain posts where
    "sent (snd (control_device e s device_name action level ac_mode temperature))
       = sent (snd (ensure_session e s)) @ posts"
    and "list_all (is_rpc s) posts"
    using control_device_requests by blast
  then show
    "session_protocol e s (snd (control_device e s device_name action level ac_mode temperature))"
    by (rule session_protocol_intro)
next
  obtain posts where
    "sent (snd (read_device_status e s device_name)) = sent (snd (ensure_session e s)) @ posts"
    and "list_all (is_rpc s) posts"
    using read_device_status_requests by blast
  then show "session_protocol e s (snd (read_device_status e s device_name))"
    by (rule session_protocol_intro)
qed

lemmas run_defs =
  control_device_def read_device_status_def ensure_session_def is_cookie_valid_eq login_eq
  send_def rpc_request_def probe_request_def login_request_def status_methods_def
  rpc_command_def ac_ir_code_def ir_code_item_def ir_code_get_def new_requests_def
  route_control_device_def route_get_device_status_def Let_def

theorem device_operations_follow_session_protocol_witness:
  "fst (is_cookie_valid (example_env [page 200, json_answer JNull]) example_state) = True
   \<and> map url (new_requests example_state
        (snd (control_device (example_env [page 200, json_answer JNull]) example_state
                ''LivingRoomLamp'' ''on'' None None None)))
     = [''http://192.168.1.10/home.html'', ''http://192.168.1.10/cgi-bin/rpc_bridge'']
   \<and> session_protocol (example_env [page 200, json_answer JNull]) example_state
        (snd (control_device (example_env [page 200, json_answer JNull]) example_state
                ''LivingRoomLamp'' ''on'' None None None))
   \<and> fst (is_cookie_valid
        (example_env [page 403, login_page [''user_id'' \<mapsto> ''abc123''], json_answer JNull,
                      json_answer JNull]) example_state) = False
   \<and> map url (new_requests example_state
        (snd (read_device_status
                (example_env [page 403, login_page [''user_id'' \<mapsto> ''abc123''],
                              json_answer JNull, json_answer JNull])
                example_state ''LivingRoomLamp'')))
     = [''http://192.168.1.10/home.html'', ''http://192.168.1.10/cgi-bin/admin'',
        ''http://192.168.1.10/cgi-bin/rpc_bridge'', ''http://192.168.1.10/cgi-bin/rpc_bridge'']
   \<and> session_protocol
        (example_env [page 403, login_page [''user_id'' \<mapsto> ''abc123''], json_answer JNull,
                      json_answer JNull]) example_state
        (snd (read_device_status
                (example_env [page 403, login_page [''user_id'' \<mapsto> ''abc123''],
                              json_answer JNull, json_answer JNull])
                example_state ''LivingRoomLamp''))"
proof -
  note p1 = device_operations_follow_session_protocol
      [of "example_env [page 200, json_answer JNull]" example_state
          "''LivingRoomLamp''" "''on''" None None None, THEN conjunct1]
  note p2 = device_operations_follow_session_protocol
      [of "example_env [page 403, login_page [''user_id'' \<mapsto> ''abc123''], json_answer JNull,
                        json_answer JNull]" example_state
          "''LivingRoomLamp''" "''on''" None None None, THEN conjunct2]
  have c1: "fst (is_cookie_valid (example_env [page 200, json_answer JNull]) example_state) = True"
    by (simp add: run_defs example_defs)
  have c2: "map url (new_requests example_state
        (snd (control_device (example_env [page 200, json_answer JNull]) example_state
                ''LivingRoomLamp'' ''on'' None None None)))
     = [''http://192.168.1.10/home.html'', ''http://192.168.1.10/cgi-bin/rpc_bridge'']"
    by (simp add: run_defs example_defs)
  have c3: "fst (is_cookie_valid
        (example_env [page 403, login_page [''user_id'' \<mapsto> ''abc123''], json_answer JNull,
                      json_answer JNull]) example_state) = False"
    by (simp add: run_defs example_defs)
  have c4: "map url (new_requests example_state
        (snd (read_device_status
                (example_env [page 403, login_page [''user_id'' \<mapsto> ''abc123''],
                              json_answer JNull, json_answer JNull])
                example_state ''LivingRoomLamp'')))
     = [''http://192.168.1.10/home.html'', ''http://192.168.1.10/cgi-bin/admin'',
        ''http://192.168.1.10/cgi-bin/rpc_bridge'', ''http://192.168.1.10/cgi-bin/rpc_bridge'']"
    by (simp add: run_defs example_defs)
  show ?thesis by (intro conjI c1 c2 p1 c3 c4 p2)
qed

section \<open>Device control after the session step\<close>

lemma rpc_calls_after_session:
  assumes "sent s' = sent (snd (ensure_session e s)) @ posts"
    and "list_all (is_rpc s) posts"
  shows "rpc_calls s s' = map (\<lambda>r. (rpc_method_of r, rpc_params_of r)) posts"
proof -
  have keep: "filter (is_rpc s) posts = posts"
    using assms(2) by (induction posts) auto
  have [simp]: "\<not> is_rpc s (probe_request s)" "\<not> is_rpc s (login_request s)"
    by (simp_all add: is_rpc_def probe_request_def login_request_def)
  show ?thesis
    by (simp add: rpc_calls_def new_requests_def assms(1) ensure_session_sent keep)
qed

lemma rpc_request_parts [simp]:
  "rpc_method_of (rpc_request e s1 m p) = Some (JStr m)"
  "rpc_params_of (rpc_request e s1 m p) = Some p"
  by (simp_all add: rpc_method_of_def rpc_params_of_def rpc_request_def json_member_def)

text \<open>
  With the session step passed and the device found, \<open>control_device\<close> is the dispatch
  followed by one POST.
\<close>

lemma control_device_after_session:
  assumes "fst (ensure_session e s) = Inr ()"
    and "cfg_devices (config s) device_name = Some dc"
  shows "control_device e s device_name action level ac_mode temperature =
     (let s1 = snd (ensure_session e s) in
      case rpc_command dc action level ac_mode temperature of
        Inl ex \<Rightarrow> (Inl ex, s1)
      | Inr (m, p) \<Rightarrow>
          (case gateway e (length (sent s1)) (rpc_request e s1 m p) of
             Response r \<Rightarrow>
               if status_code r \<noteq> 200 then
                 Inl (HTTPException (status_code r) ''Device control failed'')
               else
                 (case resp_json r of
                    JsonValue j \<Rightarrow> Inr j
                  | JsonRequestException msg \<Rightarrow>
                      Inl (HTTPException 500 (''Device control request failed: '' @ msg))
                  | JsonOtherException msg \<Rightarrow> Inl (Exception msg))
           | RequestException msg \<Rightarrow>
               Inl (HTTPException 500 (''Device control request failed: '' @ msg)),
           s1\<lparr>sent := sent s1 @ [rpc_request e s1 m p]\<rparr>))"
proof (cases "ensure_session e s")
  case (Pair res s1)
  with assms(1) have res: "res = Inr ()" by simp
  have "cfg_devices (config s1) device_name = Some dc"
    using ensure_session_frame(4) [of e s] Pair assms(2) by simp
  then show ?thesis
    using Pair res
    by (simp add: control_device_def send_def
          split: sum.splits net_result.splits json_outcome.splits prod.splits)
qed

lemma control_device_rejected:
  assumes "fst (ensure_session e s) = Inr ()"
    and "cfg_devices (config s) device_name = Some dc"
    and "rpc_command dc action level ac_mode temperature = Inl ex"
  shows "fst (control_device e s device_name action level ac_mode temperature) = Inl ex"
    and "rpc_calls s (snd (control_device e s device_name action level ac_mode temperature)) = []"
proof -
  have eq: "control_device e s device_name action level ac_mode temperature
      = (Inl ex, snd (ensure_session e s))"
    using control_device_after_session [OF assms(1,2)] assms(3) by simp
  show "fst (control_device e s device_name action level ac_mode temperature) = Inl ex"
    by (simp add: eq)
  show "rpc_calls s (snd (control_device e s device_name action level ac_mode temperature)) = []"
    using rpc_calls_after_session [of "snd (ensure_session e s)" e s "[]"] by (simp add: eq)
qed

lemma control_device_sent:
  assumes "fst (ensure_session e s) = Inr ()"
    and "cfg_devices (config s) device_name = Some dc"
    and "rpc_command dc action level ac_mode temperature = Inr (m, p)"
  shows "rpc_calls s (snd (control_device e s device_name action level ac_mode temperature))
      = [(Some (JStr m), Some p)]"
    and "last_answer e (snd (control_device e s device_name action level ac_mode temperature))
      = Response r \<Longrightarrow> status_code r = 200 \<Longrightarrow> resp_json r = JsonValue j \<Longrightarrow>
        fst (control_device e s device_name action level ac_mode temperature) = Inr j"
proof -
  let ?s1 = "snd (ensure_session e s)"
  let ?req = "rpc_request e ?s1 m p"
  let ?out = "control_device e s device_name action level ac_mode temperature"
  note eq = control_device_after_session
    [OF assms(1,2), of action level ac_mode temperature, unfolded Let_def assms(3)]
  have s': "snd ?out = ?s1\<lparr>sent := sent ?s1 @ [?req]\<rparr>"
    by (simp add: eq)
  have rpc: "is_rpc s ?req"
    by (rule rpc_request_is_rpc) (rule ensure_session_frame(1))
  show "rpc_calls s (snd ?out) = [(Some (JStr m), Some p)]"
    using rpc_calls_after_session [of "snd ?out" e s "[?req]"] rpc by (simp add: s')
  have la: "last_answer e (snd ?out) = gateway e (length (sent ?s1)) ?req"
    by (simp add: last_answer_def answer_at_def s')
  assume "last_answer e (snd ?out) = Response r" "status_code r = 200" "resp_json r = JsonValue j"
  then have "gateway e (length (sent ?s1)) ?req = Response r"
    by (simp add: la)
  then show "fst ?out = Inr j"
    using \<open>status_code r = 200\<close> \<open>resp_json r = JsonValue j\<close> by (simp add: eq)
qed

lemma route_control_device_error:
  "fst (control_device e s device_name action level ac_mode temperature) = Inl ex \<Longrightarrow>
   fst (route_control_device e s device_name action level ac_mode temperature)
     = Inl (error_response ex)"
  by (cases "control_device e s device_name action level ac_mode temperature")
    (simp add: route_control_device_def)

text \<open>
  Claim C7. For a DIMMER (the session step passed, the device found), \<open>control_device\<close>
  with action \<open>dim\<close> and no level raises the \<open>HTTPException\<close> with status 400 and
  detail "Level is required for dimming", as the route's error response shows, and sends
  no RPC call. With a level it sends exactly one RPC call: method \<open>RPC_ZCL_Move_To\<close> with
  the parameters entity, level and \<open>transTime\<close> 0.
\<close>

theorem dimmer_dim_level:
  assumes "fst (ensure_session e s) = Inr ()"
    and "cfg_devices (config s) device_name = Some dc"
    and "dev_type dc = ''DIMMER''"
  shows "fst (control_device e s device_name ''dim'' None ac_mode temperature)
       = Inl (HTTPException 400 ''Level is required for dimming'')
    \<and> fst (route_control_device e s device_name ''dim'' None ac_mode temperature)
       = Inl (400, ''Level is required for dimming'')
    \<and> rpc_calls s (snd (control_device e s device_name ''dim'' None ac_mode temperature)) = []
    \<and> rpc_calls s (snd (control_device e s device_name ''dim'' (Some l) ac_mode temperature))
       = [(Some (JStr ''RPC_ZCL_Move_To''),
           Some (JObj [(''entity'', entity dc), (''level'', JInt l), (''transTime'', JInt 0)]))]"
proof -
  have none: "rpc_command dc ''dim'' None ac_mode temperature
      = Inl (HTTPException 400 ''Level is required for dimming'')"
    using assms(3) by (simp add: rpc_command_def)
  have some: "rpc_command dc ''dim'' (Some l) ac_mode temperature
      = Inr (''RPC_ZCL_Move_To'',
             JObj [(''entity'', entity dc), (''level'', JInt l), (''transTime'', JInt 0)])"
    using assms(3) by (simp add: rpc_command_def)
  note rej = control_device_rejected [OF assms(1,2) none]
  show ?thesis
    using rej route_control_device_error [OF rej(1)] control_device_sent(1) [OF assms(1,2) some]
    by simp
qed

theorem dimmer_dim_level_witness:
  "fst (ensure_session (example_env [page 200, json_answer JNull]) example_state) = Inr ()
   \<and> cfg_devices (config example_state) ''LivingRoomLamp'' = Some example_lamp
   \<and> dev_type example_lamp = ''DIMMER''
   \<and> fst (route_control_device (example_env [page 200, json_answer JNull]) example_state
            ''LivingRoomLamp'' ''dim'' None None None)
     = Inl (400, ''Level is required for dimming'')
   \<and> rpc_calls example_state
        (snd (control_device (example_env [page 200, json_answer JNull]) example_state
                ''LivingRoomLamp'' ''dim'' (Some 50) None None))
     = [(Some (JStr ''RPC_ZCL_Move_To''),
         Some (JObj [(''entity'', JStr ''E1''), (''level'', JInt 50), (''transTime'', JInt 0)]))]"
proof -
  have h1: "fst (ensure_session (example_env [page 200, json_answer JNull]) example_state)
      = Inr ()"
    by (simp add: run_defs example_defs)
  have h2: "cfg_devices (config example_state) ''LivingRoomLamp'' = Some example_lamp"
    by (simp add: example_defs)
  have h3: "dev_type example_lamp = ''DIMMER''"
    by (simp add: example_lamp_def)
  have ent: "entity example_lamp = JStr ''E1''"
    by (simp add: example_lamp_def)
  show ?thesis
    using dimmer_dim_level [OF h1 h2 h3, of None None 50] h1 h2 h3 by (simp add: ent)
qed

section \<open>The AC branch\<close>

lemma rpc_command_ac:
  assumes "dev_type dc = ''AC''"
  shows "rpc_command dc action level ac_mode temperature =
    (case ac_ir_code dc action ac_mode temperature of
       Inl ex \<Rightarrow> Inl ex
     | Inr ir_code \<Rightarrow>
         Inr (''RPC_ZCL_Send_IR_Code'',
              JObj [(''entity'', entity dc), (''index'', JInt 1), (''repeat'', JInt 0),
                    (''codeType'', JInt 0), (''irCode'', JList (map JInt ir_code))]))"
  using assms by (simp add: rpc_command_def)

lemma ir_code_item_missing:
  "lacks_ir_code dc k \<Longrightarrow>
   ir_code_item dc k = Inl (KeyError (if ir_codes dc = None then ''ir_codes'' else k))"
  by (cases "ir_codes dc") (simp_all add: ir_code_item_def lacks_ir_code_def)

text \<open>
  Claim C9. For an AC device (the session step passed, the device found) whose IR codes
  lack \<open>power_on\<close>, \<open>control_device\<close> with action \<open>on\<close> fails: the subscript raises
  \<open>KeyError\<close>, the route answers with status 500, the status of a configuration error,
  and no RPC call is sent. The same holds for action \<open>off\<close> and \<open>power_off\<close>.
\<close>

theorem ac_power_code_missing:
  assumes "fst (ensure_session e s) = Inr ()"
    and "cfg_devices (config s) device_name = Some dc"
    and "dev_type dc = ''AC''"
  shows "(lacks_ir_code dc ''power_on'' \<longrightarrow>
       fst (control_device e s device_name ''on'' level ac_mode temperature)
         = Inl (KeyError (if ir_codes dc = None then ''ir_codes'' else ''power_on''))
       \<and> response_status
           (fst (route_control_device e s device_name ''on'' level ac_mode temperature)) = 500
       \<and> rpc_calls s (snd (control_device e s device_name ''on'' level ac_mode temperature))
         = [])
    \<and> (lacks_ir_code dc ''power_off'' \<longrightarrow>
       fst (control_device e s device_name ''off'' level ac_mode temperature)
         = Inl (KeyError (if ir_codes dc = None then ''ir_codes'' else ''power_off''))
       \<and> response_status
           (fst (route_control_device e s device_name ''off'' level ac_mode temperature)) = 500
       \<and> rpc_calls s (snd (control_device e s device_name ''off'' level ac_mode temperature))
         = [])"
proof (intro conjI impI)
  assume lacks: "lacks_ir_code dc ''power_on''"
  have "ac_ir_code dc ''on'' ac_mode temperature
      = Inl (KeyError (if ir_codes dc = None then ''ir_codes'' else ''power_on''))"
    unfolding ac_ir_code_def using ir_code_item_missing [OF lacks] by simp
  then have cmd: "rpc_command dc ''on'' level ac_mode temperature
      = Inl (KeyError (if ir_codes dc = None then ''ir_codes'' else ''power_on''))"
    by (simp add: rpc_command_ac [OF assms(3)])
  note rej = control_device_rejected [OF assms(1,2) cmd]
  show "fst (control_device e s device_name ''on'' level ac_mode temperature)
      = Inl (KeyError (if ir_codes dc = None then ''ir_codes'' else ''power_on''))"
    by (rule rej(1))
  show "response_status
      (fst (route_control_device e s device_name ''on'' level ac_mode temperature)) = 500"
    by (simp add: route_control_device_error [OF rej(1)] response_status_def)
  show "rpc_calls s (snd (control_device e s device_name ''on'' level ac_mode temperature)) = []"
    by (rule rej(2))
next
  assume lacks: "lacks_ir_code dc ''power_off''"
  have "ac_ir_code dc ''off'' ac_mode temperature
      = Inl (KeyError (if ir_codes dc = None then ''ir_codes'' else ''power_off''))"
    unfolding ac_ir_code_def using ir_code_item_missing [OF lacks] by simp
  then have cmd: "rpc_command dc ''off'' level ac_mode temperature
      = Inl (KeyError (if ir_codes dc = None then ''ir_codes'' else ''power_off''))"
    by (simp add: rpc_command_ac [OF assms(3)])
  note rej = control_device_rejected [OF assms(1,2) cmd]
  show "fst (control_device e s device_name ''off'' level ac_mode temperature)
      = Inl (KeyError (if ir_codes dc = None then ''ir_codes'' else ''power_off''))"
    by (rule rej(1))
  show "response_status
      (fst (route_control_device e s device_name ''off'' level ac_mode temperature)) = 500"
    by (simp add: route_control_device_error [OF rej(1)] response_status_def)
  show "rpc_calls s (snd (control_device e s device_name ''off'' level ac_mode temperature)) = []"
    by (rule rej(2))
qed

theorem ac_power_code_missing_witness:
  "fst (ensure_session (example_env [page 200, json_answer JNull]) example_state) = Inr ()
   \<and> cfg_devices (config example_state) ''BedroomAC'' = Some example_ac
   \<and> dev_type example_ac = ''AC''
   \<and> lacks_ir_code example_ac ''power_on''
   \<and> fst (control_device (example_env [page 200, json_answer JNull]) example_state
            ''BedroomAC'' ''on'' None None None)
     = Inl (KeyError ''power_on'')
   \<and> response_status
        (fst (route_control_device (example_env [page 200, json_answer JNull]) example_state
                ''BedroomAC'' ''on'' None None None)) = 500
   \<and> rpc_calls example_state
        (snd (control_device (example_env [page 200, json_answer JNull]) example_state
                ''BedroomAC'' ''on'' None None None)) = []"
proof -
  have h1: "fst (ensure_session (example_env [page 200, json_answer JNull]) example_state)
      = Inr ()"
    by (simp add: run_defs example_defs)
  have h2: "cfg_devices (config example_state) ''BedroomAC'' = Some example_ac"
    by (simp add: example_defs)
  have h3: "dev_type example_ac = ''AC''"
    by (simp add: example_ac_def)
  have h5: "lacks_ir_code example_ac ''power_on''"
    by (simp add: lacks_ir_code_def example_ac_def)
  have tbl: "ir_codes example_ac \<noteq> None"
    by (simp add: example_ac_def)
  show ?thesis
    using ac_power_code_missing [OF h1 h2 h3, of None None None] h1 h2 h3 h5
    by (simp add: tbl)
qed

text \<open>
  Claim C6. For an AC device (the session step passed, the device found),
  \<open>control_device\<close> with action \<open>set_mode\<close> and a mode that is neither \<open>cool\<close> nor
  \<open>heat\<close> (or no mode) raises nothing before the request: it sends exactly one RPC
  call, \<open>RPC_ZCL_Send_IR_Code\<close> with \<open>irCode\<close> the empty list, and returns the gateway's
  JSON answer when there is one. The same holds for action \<open>set_temperature\<close> with a
  temperature whose key \<open>temp_<value>\<close> is not in the device's IR table.
\<close>

theorem ac_unmatched_mode_or_temperature_sends_empty_ir_code:
  assumes "fst (ensure_session e s) = Inr ()"
    and "cfg_devices (config s) device_name = Some dc"
    and "dev_type dc = ''AC''"
    and "action = ''set_mode'' \<and> ac_mode \<noteq> Some ''cool'' \<and> ac_mode \<noteq> Some ''heat''
       \<or> action = ''set_temperature''
          \<and> (\<exists>t table. temperature = Some t \<and> ir_codes dc = Some table
                \<and> table (''temp_'' @ str_int t) = None)"
  shows "rpc_command dc action level ac_mode temperature
       = Inr (''RPC_ZCL_Send_IR_Code'',
              JObj [(''entity'', entity dc), (''index'', JInt 1), (''repeat'', JInt 0),
                    (''codeType'', JInt 0), (''irCode'', JList [])])
    \<and> rpc_calls s (snd (control_device e s device_name action level ac_mode temperature))
       = [(Some (JStr ''RPC_ZCL_Send_IR_Code''),
           Some (JObj [(''entity'', entity dc), (''index'', JInt 1), (''repeat'', JInt 0),
                       (''codeType'', JInt 0), (''irCode'', JList [])]))]
    \<and> (\<forall>r j. last_answer e
                 (snd (control_device e s device_name action level ac_mode temperature))
                 = Response r \<and> status_code r = 200 \<and> resp_json r = JsonValue j
          \<longrightarrow> fst (control_device e s device_name action level ac_mode temperature) = Inr j)"
proof -
  have ir: "ac_ir_code dc action ac_mode temperature = Inr []"
    using assms(4)
  proof (elim disjE conjE exE)
    assume "action = ''set_mode''" "ac_mode \<noteq> Some ''cool''" "ac_mode \<noteq> Some ''heat''"
    then show ?thesis by (simp add: ac_ir_code_def)
  next
    fix t table
    assume "action = ''set_temperature''" "temperature = Some t" "ir_codes dc = Some table"
      "table (''temp_'' @ str_int t) = None"
    then show ?thesis by (simp add: ac_ir_code_def ir_code_get_def)
  qed
  have cmd: "rpc_command dc action level ac_mode temperature
      = Inr (''RPC_ZCL_Send_IR_Code'',
             JObj [(''entity'', entity dc), (''index'', JInt 1), (''repeat'', JInt 0),
                   (''codeType'', JInt 0), (''irCode'', JList [])])"
    by (simp add: rpc_command_ac [OF assms(3)] ir)
  note sent = control_device_sent [OF assms(1,2) cmd]
  show ?thesis
  proof (intro conjI allI impI)
    show "rpc_command dc action level ac_mode temperature
      = Inr (''RPC_ZCL_Send_IR_Code'',
             JObj [(''entity'', entity dc), (''index'', JInt 1), (''repeat'', JInt 0),
                   (''codeType'', JInt 0), (''irCode'', JList [])])"
      by (rule cmd)
    show "rpc_calls s (snd (control_device e s device_name action level ac_mode temperature))
       = [(Some (JStr ''RPC_ZCL_Send_IR_Code''),
           Some (JObj [(''entity'', entity dc), (''index'', JInt 1), (''repeat'', JInt 0),
                       (''codeType'', JInt 0), (''irCode'', JList [])]))]"
      by (rule sent(1))
  next
    fix r j
    assume "last_answer e (snd (control_device e s device_name action level ac_mode temperature))
                 = Response r \<and> status_code r = 200 \<and> resp_json r = JsonValue j"
    then show "fst (control_device e s device_name action level ac_mode temperature) = Inr j"
      using sent(2) by blast
  qed
qed

lemmas log_defs =
  rpc_calls_def is_rpc_def rpc_method_of_def rpc_params_of_def json_member_def
  last_answer_def answer_at_def

theorem ac_unmatched_mode_or_temperature_sends_empty_ir_code_witness:
  "fst (ensure_session (example_env [page 200, json_answer (JObj [(''result'', JInt 0)])])
          example_state) = Inr ()
   \<and> cfg_devices (config example_state) ''BedroomAC'' = Some example_ac
   \<and> dev_type example_ac = ''AC''
   \<and> ir_codes example_ac = Some [''power_off'' \<mapsto> [1, 2, 3], ''cool_mode'' \<mapsto> [4, 5]]
   \<and> [''power_off'' \<mapsto> [1, 2, 3], ''cool_mode'' \<mapsto> [4, 5::int]] (''temp_'' @ str_int 24) = None
   \<and> rpc_calls example_state
        (snd (control_device (example_env [page 200, json_answer (JObj [(''result'', JInt 0)])])
                example_state ''BedroomAC'' ''set_mode'' None (Some ''fan'') None))
     = [(Some (JStr ''RPC_ZCL_Send_IR_Code''),
         Some (JObj [(''entity'', JStr ''E3''), (''index'', JInt 1), (''repeat'', JInt 0),
                     (''codeType'', JInt 0), (''irCode'', JList [])]))]
   \<and> fst (control_device (example_env [page 200, json_answer (JObj [(''result'', JInt 0)])])
            example_state ''BedroomAC'' ''set_mode'' None (Some ''fan'') None)
     = Inr (JObj [(''result'', JInt 0)])
   \<and> rpc_calls example_state
        (snd (control_device (example_env [page 200, json_answer (JObj [(''result'', JInt 0)])])
                example_state ''BedroomAC'' ''set_temperature'' None None (Some 24)))
     = [(Some (JStr ''RPC_ZCL_Send_IR_Code''),
         Some (JObj [(''entity'', JStr ''E3''), (''index'', JInt 1), (''repeat'', JInt 0),
                     (''codeType'', JInt 0), (''irCode'', JList [])]))]
   \<and> fst (control_device (example_env [page 200, json_answer (JObj [(''result'', JInt 0)])])
            example_state ''BedroomAC'' ''set_temperature'' None None (Some 24))
     = Inr (JObj [(''result'', JInt 0)])"
proof -
  let ?e = "example_env [page 200, json_answer (JObj [(''result'', JInt 0)])]"
  let ?r = "\<lparr>status_code = 200, cookies = Map.empty,
             resp_json = JsonValue (JObj [(''result'', JInt 0)])\<rparr>"
  have h1: "fst (ensure_session ?e example_state) = Inr ()"
    by (simp add: run_defs example_defs)
  have h2: "cfg_devices (config example_state) ''BedroomAC'' = Some example_ac"
    by (simp add: example_defs)
  have h3: "dev_type example_ac = ''AC''"
    by (simp add: example_ac_def)
  have tbl: "ir_codes example_ac = Some [''power_off'' \<mapsto> [1, 2, 3], ''cool_mode'' \<mapsto> [4, 5]]"
    by (simp add: example_ac_def)
  have key: "[''power_off'' \<mapsto> [1, 2, 3], ''cool_mode'' \<mapsto> [4, 5::int]] (''temp_'' @ str_int 24)
      = None"
    by (simp add: str_int_def str_nat.simps digit_char_def)
  have mode: "''set_mode'' = ''set_mode'' \<and> Some ''fan'' \<noteq> Some ''cool''
        \<and> Some ''fan'' \<noteq> Some ''heat''
      \<or> ''set_mode'' = ''set_temperature''
        \<and> (\<exists>t table. (None :: int option) = Some t \<and> ir_codes example_ac = Some table
              \<and> table (''temp_'' @ str_int t) = None)"
    by simp
  have temp: "''set_temperature'' = ''set_mode'' \<and> (None :: string option) \<noteq> Some ''cool''
        \<and> (None :: string option) \<noteq> Some ''heat''
      \<or> ''set_temperature'' = ''set_temperature''
        \<and> (\<exists>t table. Some (24 :: int) = Some t \<and> ir_codes example_ac = Some table
              \<and> table (''temp_'' @ str_int t) = None)"
    using tbl key by simp
  have la1: "last_answer ?e (snd (control_device ?e example_state
        ''BedroomAC'' ''set_mode'' None (Some ''fan'') None)) = Response ?r"
    by (simp add: run_defs log_defs example_defs)
  have la2: "last_answer ?e (snd (control_device ?e example_state
        ''BedroomAC'' ''set_temperature'' None None (Some 24))) = Response ?r"
    by (simp add: run_defs log_defs example_defs str_int_def str_nat.simps digit_char_def)
  note m = ac_unmatched_mode_or_temperature_sends_empty_ir_code [OF h1 h2 h3 mode, of None]
  note t = ac_unmatched_mode_or_temperature_sends_empty_ir_code [OF h1 h2 h3 temp, of None]
  have ent: "entity example_ac = JStr ''E3''"
    by (simp add: example_ac_def)
  have r1: "fst (control_device ?e example_state ''BedroomAC'' ''set_mode'' None (Some ''fan'') None)
      = Inr (JObj [(''result'', JInt 0)])"
    using m la1 by simp
  have r2: "fst (control_device ?e example_state ''BedroomAC'' ''set_temperature'' None None
        (Some 24)) = Inr (JObj [(''result'', JInt 0)])"
    using t la2 by simp
  show ?thesis
    using h1 h2 h3 tbl key m t r1 r2 by (simp add: ent)
qed

section \<open>An action the AC branch does not list\<close>

text \<open>
  The DIMMER and SWITCH branches reject an action they do not list. The AC branch has no
  such \<open>else\<close>: \<open>ir_code\<close> keeps its initial value, the empty list, and the request goes
  out.
\<close>

lemma ac_unlisted_action_command:
  assumes "dev_type dc = ''AC''"
    and "action \<notin> {''on'', ''off'', ''set_mode'', ''set_temperature''}"
  shows "rpc_command dc action level ac_mode temperature
     = Inr (''RPC_ZCL_Send_IR_Code'',
            JObj [(''entity'', entity dc), (''index'', JInt 1), (''repeat'', JInt 0),
                  (''codeType'', JInt 0), (''irCode'', JList [])])"
proof -
  have "ac_ir_code dc action ac_mode temperature = Inr []"
    using assms(2) by (simp add: ac_ir_code_def)
  then show ?thesis
    by (simp add: rpc_command_ac [OF assms(1)])
qed

lemma other_branches_reject_unlisted_action:
  "dev_type dc = ''SWITCH'' \<Longrightarrow> action \<notin> {''on'', ''off''} \<Longrightarrow>
     rpc_command dc action level ac_mode temperature
       = Inl (HTTPException 400 ''Invalid action for SWITCH'')"
  "dev_type dc = ''DIMMER'' \<Longrightarrow> action \<notin> {''on'', ''off'', ''dim''} \<Longrightarrow>
     rpc_command dc action level ac_mode temperature
       = Inl (HTTPException 400 ''Invalid action for DIMMER'')"
  by (simp_all add: rpc_command_def)

text \<open>
  Claim C1 fails on the code. For the AC device of the example and the action \<open>dim\<close>,
  which is outside on, off, set_mode and set_temperature, \<open>control_device\<close> raises
  nothing: it sends \<open>RPC_ZCL_Send_IR_Code\<close> with an empty \<open>irCode\<close> to the gateway and
  the route answers with success.
\<close>

theorem ac_unlisted_action_reaches_gateway:
  "cfg_devices (config example_state) ''BedroomAC'' = Some example_ac
   \<and> dev_type example_ac = ''AC''
   \<and> ''dim'' \<notin> {''on'', ''off'', ''set_mode'', ''set_temperature''}
   \<and> rpc_calls example_state
        (snd (control_device (example_env [page 200, json_answer (JObj [(''result'', JInt 0)])])
                example_state ''BedroomAC'' ''dim'' None None None))
     = [(Some (JStr ''RPC_ZCL_Send_IR_Code''),
         Some (JObj [(''entity'', JStr ''E3''), (''index'', JInt 1), (''repeat'', JInt 0),
                     (''codeType'', JInt 0), (''irCode'', JList [])]))]
   \<and> fst (route_control_device
            (example_env [page 200, json_answer (JObj [(''result'', JInt 0)])])
            example_state ''BedroomAC'' ''dim'' None None None)
     = Inr (JObj [(''status'', JStr ''success''), (''result'', JObj [(''result'', JInt 0)])])"
  by (simp add: run_defs log_defs example_defs)

section \<open>The status queries\<close>

text \<open>One turn of the loop, by the gateway's answer to its request.\<close>

lemma query_methods_ok_step:
  assumes "answer_ok (gateway e (length (sent s1)) (rpc_request e s1 m (JObj [(''entity'', entity dc)])))"
  shows "\<exists>j. query_methods e dc (m # ms) results s1
     = query_methods e dc ms (AList.update m j results)
         (s1\<lparr>sent := sent s1 @ [rpc_request e s1 m (JObj [(''entity'', entity dc)])]\<rparr>)"
  using assms
  by (auto simp: answer_ok_def send_def split: net_result.splits json_outcome.splits)

lemma query_methods_fail_step:
  assumes "\<not> answer_ok (gateway e (length (sent s1)) (rpc_request e s1 m (JObj [(''entity'', entity dc)])))"
  shows "\<exists>ex. query_methods e dc (m # ms) results s1
     = (Inl ex, s1\<lparr>sent := sent s1 @ [rpc_request e s1 m (JObj [(''entity'', entity dc)])]\<rparr>)
     \<and> (case gateway e (length (sent s1)) (rpc_request e s1 m (JObj [(''entity'', entity dc)])) of
          RequestException msg \<Rightarrow> fst (error_response ex) = 500
        | Response r \<Rightarrow> status_code r \<noteq> 200 \<longrightarrow> fst (error_response ex) = status_code r)"
  using assms
  by (auto simp: answer_ok_def send_def split: net_result.splits json_outcome.splits)

declare query_methods.simps(2) [simp del]

lemma answer_at_append [simp]:
  "answer_at e (s\<lparr>sent := xs @ r # ys\<rparr>) (length xs) = gateway e (length xs) r"
  by (simp add: answer_at_def)

text \<open>
  A query whose answer is not acceptable is the last request sent, and the loop ends with
  an exception.
\<close>

lemma query_methods_abort:
  assumes "length (sent s1) \<le> i"
    and "i < length (sent (snd (query_methods e dc ms results s1)))"
    and "\<not> answer_ok (answer_at e (snd (query_methods e dc ms results s1)) i)"
  shows "Suc i = length (sent (snd (query_methods e dc ms results s1)))
    \<and> (\<exists>ex. fst (query_methods e dc ms results s1) = Inl ex)"
  using assms
proof (induction ms arbitrary: results s1)
  case Nil
  then show ?case by simp
next
  case (Cons m ms)
  let ?req = "rpc_request e s1 m (JObj [(''entity'', entity dc)])"
  let ?s2 = "s1\<lparr>sent := sent s1 @ [?req]\<rparr>"
  show ?case
  proof (cases "answer_ok (gateway e (length (sent s1)) ?req)")
    case False
    from query_methods_fail_step [OF False, of ms results]
    obtain ex where "query_methods e dc (m # ms) results s1 = (Inl ex, ?s2)"
      by blast
    then show ?thesis using Cons.prems by simp
  next
    case True
    from query_methods_ok_step [OF True, of ms results]
    obtain j where step: "query_methods e dc (m # ms) results s1
        = query_methods e dc ms (AList.update m j results) ?s2"
      by blast
    obtain posts where posts:
      "sent (snd (query_methods e dc ms (AList.update m j results) ?s2)) = sent ?s2 @ posts"
      using query_methods_requests [of e dc ms "AList.update m j results" ?s2] by blast
    have first: "answer_at e (snd (query_methods e dc ms (AList.update m j results) ?s2))
        (length (sent s1)) = gateway e (length (sent s1)) ?req"
      using posts by (simp add: answer_at_def nth_append)
    have "i \<noteq> length (sent s1)"
      using Cons.prems(3) True first by (auto simp: step)
    then have "length (sent ?s2) \<le> i"
      using Cons.prems(1) by simp
    from Cons.IH [OF this] Cons.prems(2,3) show ?thesis
      by (simp add: step)
  qed
qed

text \<open>The loop returns a result for every method, or none.\<close>

lemma query_methods_complete:
  "fst (query_methods e dc ms results s1) = Inr res \<Longrightarrow>
   \<exists>js. length js = length ms \<and> res = fold (\<lambda>(m, j). AList.update m j) (zip ms js) results"
proof (induction ms arbitrary: results s1)
  case Nil
  then show ?case by simp
next
  case (Cons m ms)
  let ?req = "rpc_request e s1 m (JObj [(''entity'', entity dc)])"
  show ?case
  proof (cases "answer_ok (gateway e (length (sent s1)) ?req)")
    case False
    from query_methods_fail_step [OF False, of ms results] Cons.prems show ?thesis
      by auto
  next
    case True
    from query_methods_ok_step [OF True, of ms results]
    obtain j where step: "query_methods e dc (m # ms) results s1
        = query_methods e dc ms (AList.update m j results)
            (s1\<lparr>sent := sent s1 @ [?req]\<rparr>)"
      by blast
    from Cons.IH [of "AList.update m j results" "s1\<lparr>sent := sent s1 @ [?req]\<rparr>"] Cons.prems
    obtain js where "length js = length ms"
      and "res = fold (\<lambda>(m, j). AList.update m j) (zip ms js) (AList.update m j results)"
      by (auto simp: step)
    then have "length (j # js) = length (m # ms)
        \<and> res = fold (\<lambda>(m, j). AList.update m j) (zip (m # ms) (j # js)) results"
      by simp
    then show ?thesis by blast
  qed
qed

text \<open>
  When the loop has sent a request, the answer to the last one decides: no connection or
  a status other than 200 makes the loop raise, with status 500 or the gateway's status.
\<close>

lemma query_methods_last:
  assumes "length (sent s1) < length (sent (snd (query_methods e dc ms results s1)))"
  shows "case last_answer e (snd (query_methods e dc ms results s1)) of
      RequestException msg \<Rightarrow>
        (\<exists>ex. fst (query_methods e dc ms results s1) = Inl ex \<and> fst (error_response ex) = 500)
    | Response r \<Rightarrow>
        status_code r \<noteq> 200 \<longrightarrow>
        (\<exists>ex. fst (query_methods e dc ms results s1) = Inl ex
           \<and> fst (error_response ex) = status_code r)"
  using assms
proof (induction ms arbitrary: results s1)
  case Nil
  then show ?case by simp
next
  case (Cons m ms)
  let ?req = "rpc_request e s1 m (JObj [(''entity'', entity dc)])"
  let ?s2 = "s1\<lparr>sent := sent s1 @ [?req]\<rparr>"
  have la: "last_answer e ?s2 = gateway e (length (sent s1)) ?req"
    by (simp add: last_answer_def answer_at_def)
  show ?case
  proof (cases "answer_ok (gateway e (length (sent s1)) ?req)")
    case False
    from query_methods_fail_step [OF False, of ms results]
    obtain ex where eq: "query_methods e dc (m # ms) results s1 = (Inl ex, ?s2)"
      and rel: "case gateway e (length (sent s1)) ?req of
          RequestException msg \<Rightarrow> fst (error_response ex) = 500
        | Response r \<Rightarrow> status_code r \<noteq> 200 \<longrightarrow> fst (error_response ex) = status_code r"
      by blast
    show ?thesis
      using rel by (simp add: eq la split: net_result.splits)
  next
    case True
    from query_methods_ok_step [OF True, of ms results]
    obtain j where step: "query_methods e dc (m # ms) results s1
        = query_methods e dc ms (AList.update m j results) ?s2"
      by blast
    let ?out = "query_methods e dc ms (AList.update m j results) ?s2"
    obtain posts where posts: "sent (snd ?out) = sent ?s2 @ posts"
      using query_methods_requests [of e dc ms "AList.update m j results" ?s2] by blast
    show ?thesis
    proof (cases "posts = []")
      case False
      then have "length (sent ?s2) < length (sent (snd ?out))"
        by (simp add: posts)
      from Cons.IH [OF this] show ?thesis
        unfolding step .
    next
      case nil: True
      have "last_answer e (snd ?out) = gateway e (length (sent s1)) ?req"
        using posts nil by (simp add: last_answer_def answer_at_def)
      then show ?thesis
        unfolding step using True by (auto simp: answer_ok_def split: net_result.splits)
    qed
  qed
qed

lemma read_device_status_after_session:
  assumes "fst (ensure_session e s) = Inr ()"
    and "cfg_devices (config s) device_name = Some dc"
  shows "read_device_status e s device_name =
     (case status_methods dc of
        Inl ex \<Rightarrow> (Inl ex, snd (ensure_session e s))
      | Inr methods \<Rightarrow> query_methods e dc methods [] (snd (ensure_session e s)))"
proof (cases "ensure_session e s")
  case (Pair res s1)
  with assms(1) have res: "res = Inr ()" by simp
  have "cfg_devices (config s1) device_name = Some dc"
    using ensure_session_frame(4) [of e s] Pair assms(2) by simp
  then show ?thesis
    using Pair res by (simp add: read_device_status_def split: sum.splits)
qed

lemma query_methods_single:
  "snd (query_methods e dc [m] results s1)
     = s1\<lparr>sent := sent s1 @ [rpc_request e s1 m (JObj [(''entity'', entity dc)])]\<rparr>"
proof (cases "answer_ok (gateway e (length (sent s1))
    (rpc_request e s1 m (JObj [(''entity'', entity dc)])))")
  case True
  from query_methods_ok_step [OF True, of "[]" results] show ?thesis by auto
next
  case False
  from query_methods_fail_step [OF False, of "[]" results] show ?thesis by auto
qed

lemma query_methods_pair:
  "sent (snd (query_methods e dc [m1, m2] results s1))
     = sent s1 @ rpc_request e s1 m1 (JObj [(''entity'', entity dc)])
         # (if answer_ok (gateway e (length (sent s1))
                  (rpc_request e s1 m1 (JObj [(''entity'', entity dc)])))
            then [rpc_request e
                    (s1\<lparr>sent := sent s1 @ [rpc_request e s1 m1 (JObj [(''entity'', entity dc)])]\<rparr>)
                    m2 (JObj [(''entity'', entity dc)])]
            else [])"
proof (cases "answer_ok (gateway e (length (sent s1))
    (rpc_request e s1 m1 (JObj [(''entity'', entity dc)])))")
  case True
  from query_methods_ok_step [OF True, of "[m2]" results] show ?thesis
    using True by (auto simp: query_methods_single)
next
  case False
  from query_methods_fail_step [OF False, of "[m2]" results] show ?thesis
    using False by auto
qed

text \<open>
  Claim C5. For a status request whose session step passed and whose device is found,
  with \<open>n\<close> requests sent when the queries start:
  on a SWITCH exactly one RPC call is sent, \<open>RPC_ZCL_Get_OnOff\<close>;
  on a DIMMER \<open>RPC_ZCL_Get_OnOff\<close> is sent first and \<open>RPC_ZCL_Get_Level\<close> second, the
  second only when the first was answered acceptably;
  on any other type the function raises the \<open>HTTPException\<close> with status 400 and sends
  no RPC call;
  a query that is not answered acceptably (no connection, a status other than 200, a
  body that is not JSON) is the last request sent, and the function then raises instead
  of returning;
  and a returned result has one entry for each method of the device type, in order.
\<close>

theorem read_device_status_queries:
  assumes "fst (ensure_session e s) = Inr ()"
    and "cfg_devices (config s) device_name = Some dc"
  shows "let out = read_device_status e s device_name;
             n = length (sent (snd (ensure_session e s)));
             params = JObj [(''entity'', entity dc)]
         in (dev_type dc = ''SWITCH'' \<longrightarrow>
               rpc_calls s (snd out) = [(Some (JStr ''RPC_ZCL_Get_OnOff''), Some params)])
          \<and> (dev_type dc = ''DIMMER'' \<longrightarrow>
               rpc_calls s (snd out)
                 = (Some (JStr ''RPC_ZCL_Get_OnOff''), Some params)
                   # (if answer_ok (answer_at e (snd out) n)
                      then [(Some (JStr ''RPC_ZCL_Get_Level''), Some params)] else []))
          \<and> (dev_type dc \<noteq> ''DIMMER'' \<and> dev_type dc \<noteq> ''SWITCH'' \<longrightarrow>
               fst out = Inl (HTTPException 400 ''Unsupported device type for status reading'')
               \<and> response_status (fst (route_get_device_status e s device_name)) = 400
               \<and> rpc_calls s (snd out) = [])
          \<and> (\<forall>i. n \<le> i \<and> i < length (sent (snd out)) \<and> \<not> answer_ok (answer_at e (snd out) i)
                \<longrightarrow> Suc i = length (sent (snd out)) \<and> (\<exists>ex. fst out = Inl ex))
          \<and> (\<forall>res. fst out = Inr res \<longrightarrow> status_methods dc = Inr (map fst res))"
proof -
  let ?s1 = "snd (ensure_session e s)"
  let ?out = "read_device_status e s device_name"
  let ?P = "JObj [(''entity'', entity dc)]"
  note eq = read_device_status_after_session [OF assms]
  have base: "base_url ?s1 = base_url s"
    by (rule ensure_session_frame(1))
  have switch: "rpc_calls s (snd ?out) = [(Some (JStr ''RPC_ZCL_Get_OnOff''), Some ?P)]"
    if "dev_type dc = ''SWITCH''"
  proof -
    have "snd ?out = ?s1\<lparr>sent := sent ?s1 @ [rpc_request e ?s1 ''RPC_ZCL_Get_OnOff'' ?P]\<rparr>"
      using that by (simp add: eq status_methods_def query_methods_single)
    then show ?thesis
      using rpc_calls_after_session
        [of "snd ?out" e s "[rpc_request e ?s1 ''RPC_ZCL_Get_OnOff'' ?P]"]
        rpc_request_is_rpc [OF base]
      by simp
  qed
  have dimmer: "rpc_calls s (snd ?out)
      = (Some (JStr ''RPC_ZCL_Get_OnOff''), Some ?P)
        # (if answer_ok (answer_at e (snd ?out) (length (sent ?s1)))
           then [(Some (JStr ''RPC_ZCL_Get_Level''), Some ?P)] else [])"
    if "dev_type dc = ''DIMMER''"
  proof -
    let ?req1 = "rpc_request e ?s1 ''RPC_ZCL_Get_OnOff'' ?P"
    let ?req2 = "rpc_request e (?s1\<lparr>sent := sent ?s1 @ [?req1]\<rparr>) ''RPC_ZCL_Get_Level'' ?P"
    let ?posts = "?req1 # (if answer_ok (gateway e (length (sent ?s1)) ?req1) then [?req2] else [])"
    have out: "?out = query_methods e dc [''RPC_ZCL_Get_OnOff'', ''RPC_ZCL_Get_Level''] [] ?s1"
      using that by (simp add: eq status_methods_def)
    have sent: "sent (snd ?out) = sent ?s1 @ ?posts"
      unfolding out by (rule query_methods_pair)
    have rpcs: "list_all (is_rpc s) ?posts"
      using rpc_request_is_rpc [OF base]
        rpc_request_is_rpc [of "?s1\<lparr>sent := sent ?s1 @ [?req1]\<rparr>" s] base
      by simp
    have first: "answer_at e (snd ?out) (length (sent ?s1)) = gateway e (length (sent ?s1)) ?req1"
      by (simp add: answer_at_def sent)
    show ?thesis
      using rpc_calls_after_session [OF sent rpcs] by (simp add: first)
  qed
  have other: "fst ?out = Inl (HTTPException 400 ''Unsupported device type for status reading'')
      \<and> response_status (fst (route_get_device_status e s device_name)) = 400
      \<and> rpc_calls s (snd ?out) = []"
    if "dev_type dc \<noteq> ''DIMMER'' \<and> dev_type dc \<noteq> ''SWITCH''"
  proof -
    have out: "?out
        = (Inl (HTTPException 400 ''Unsupported device type for status reading''), ?s1)"
      using that by (simp add: eq status_methods_def)
    have "rpc_calls s (snd ?out) = []"
      using rpc_calls_after_session [of "snd ?out" e s "[]"] by (simp add: out)
    then show ?thesis
      by (simp add: out route_get_device_status_def response_status_def)
  qed
  have abort: "Suc i = length (sent (snd ?out)) \<and> (\<exists>ex. fst ?out = Inl ex)"
    if "length (sent ?s1) \<le> i \<and> i < length (sent (snd ?out))
        \<and> \<not> answer_ok (answer_at e (snd ?out) i)" for i
  proof (cases "status_methods dc")
    case (Inl ex)
    then show ?thesis using that by (simp add: eq)
  next
    case (Inr methods)
    then have "?out = query_methods e dc methods [] ?s1"
      by (simp add: eq)
    then show ?thesis
      using that query_methods_abort [of ?s1 i e dc methods "[]"] by simp
  qed
  have complete: "status_methods dc = Inr (map fst res)" if "fst ?out = Inr res" for res
  proof (cases "status_methods dc")
    case (Inl ex)
    then show ?thesis using that by (simp add: eq)
  next
    case (Inr methods)
    then have "fst (query_methods e dc methods [] ?s1) = Inr res"
      using that by (simp add: eq)
    from query_methods_complete [OF this]
    obtain js where js: "length js = length methods"
      and res: "res = fold (\<lambda>(m, j). AList.update m j) (zip methods js) []"
      by blast
    have "methods = [''RPC_ZCL_Get_OnOff'', ''RPC_ZCL_Get_Level'']
        \<or> methods = [''RPC_ZCL_Get_OnOff'']"
      using Inr by (auto simp: status_methods_def split: if_splits)
    then have "map fst res = methods"
    proof
      assume m: "methods = [''RPC_ZCL_Get_OnOff'', ''RPC_ZCL_Get_Level'']"
      with js obtain j1 j2 where "js = [j1, j2]"
        by (auto simp: length_Suc_conv)
      then show ?thesis by (simp add: res m)
    next
      assume m: "methods = [''RPC_ZCL_Get_OnOff'']"
      with js obtain j1 where "js = [j1]"
        by (auto simp: length_Suc_conv)
      then show ?thesis by (simp add: res m)
    qed
    then show ?thesis using Inr by simp
  qed
  show ?thesis
    unfolding Let_def using switch dimmer other abort complete by blast
qed

theorem read_device_status_queries_witness:
  "fst (ensure_session
          (example_env [page 200, json_answer (JObj [(''value'', JInt 1)]), page 503])
          example_state) = Inr ()
   \<and> cfg_devices (config example_state) ''LivingRoomLamp'' = Some example_lamp
   \<and> dev_type example_lamp = ''DIMMER''
   \<and> rpc_calls example_state
        (snd (read_device_status
                (example_env [page 200, json_answer (JObj [(''value'', JInt 1)]), page 503])
                example_state ''LivingRoomLamp''))
     = [(Some (JStr ''RPC_ZCL_Get_OnOff''), Some (JObj [(''entity'', JStr ''E1'')])),
        (Some (JStr ''RPC_ZCL_Get_Level''), Some (JObj [(''entity'', JStr ''E1'')]))]
   \<and> fst (read_device_status
            (example_env [page 200, json_answer (JObj [(''value'', JInt 1)]), page 503])
            example_state ''LivingRoomLamp'')
     = Inl (HTTPException 503 ''Device status read failed'')
   \<and> fst (read_device_status
            (example_env [page 200, json_answer (JObj [(''value'', JInt 1)]),
                          json_answer (JObj [(''value'', JInt 40)])])
            example_state ''LivingRoomLamp'')
     = Inr [(''RPC_ZCL_Get_OnOff'', JObj [(''value'', JInt 1)]),
            (''RPC_ZCL_Get_Level'', JObj [(''value'', JInt 40)])]"
proof -
  let ?e = "example_env [page 200, json_answer (JObj [(''value'', JInt 1)]), page 503]"
  have h1: "fst (ensure_session ?e example_state) = Inr ()"
    by (simp add: run_defs example_defs)
  have h2: "cfg_devices (config example_state) ''LivingRoomLamp'' = Some example_lamp"
    by (simp add: example_defs)
  have h3: "dev_type example_lamp = ''DIMMER''"
    by (simp add: example_lamp_def)
  have ent: "entity example_lamp = JStr ''E1''"
    by (simp add: example_lamp_def)
  have ok1: "answer_ok (answer_at ?e
      (snd (read_device_status ?e example_state ''LivingRoomLamp''))
      (length (sent (snd (ensure_session ?e example_state)))))"
    by (simp add: run_defs log_defs example_defs answer_ok_def query_methods.simps)
  note dimmer = read_device_status_queries
    [OF h1 h2, unfolded Let_def, THEN conjunct2, THEN conjunct1, THEN mp, OF h3]
  have calls: "rpc_calls example_state
        (snd (read_device_status ?e example_state ''LivingRoomLamp''))
     = [(Some (JStr ''RPC_ZCL_Get_OnOff''), Some (JObj [(''entity'', JStr ''E1'')])),
        (Some (JStr ''RPC_ZCL_Get_Level''), Some (JObj [(''entity'', JStr ''E1'')]))]"
    using dimmer ok1 by (simp add: ent)
  have failed: "fst (read_device_status ?e example_state ''LivingRoomLamp'')
     = Inl (HTTPException 503 ''Device status read failed'')"
    by (simp add: run_defs example_defs query_methods.simps)
  have returned: "fst (read_device_status
            (example_env [page 200, json_answer (JObj [(''value'', JInt 1)]),
                          json_answer (JObj [(''value'', JInt 40)])])
            example_state ''LivingRoomLamp'')
     = Inr [(''RPC_ZCL_Get_OnOff'', JObj [(''value'', JInt 1)]),
            (''RPC_ZCL_Get_Level'', JObj [(''value'', JInt 40)])]"
    by (simp add: run_defs example_defs query_methods.simps)
  show ?thesis
    by (intro conjI h1 h2 h3 calls failed returned)
qed

section \<open>How a failed RPC call reaches the HTTP caller\<close>

lemma session_requests_not_rpc:
  "\<not> is_rpc s (last (sent (snd (ensure_session e s))))"
  by (simp add: ensure_session_sent is_rpc_def probe_request_def login_request_def)

lemma control_device_last:
  assumes "is_rpc s (last (sent (snd (control_device e s device_name action level ac_mode
      temperature))))"
  shows "case last_answer e
        (snd (control_device e s device_name action level ac_mode temperature)) of
      RequestException msg \<Rightarrow>
        (\<exists>ex. fst (control_device e s device_name action level ac_mode temperature) = Inl ex
           \<and> fst (error_response ex) = 500)
    | Response r \<Rightarrow>
        status_code r \<noteq> 200 \<longrightarrow>
        (\<exists>ex. fst (control_device e s device_name action level ac_mode temperature) = Inl ex
           \<and> fst (error_response ex) = status_code r)"
proof (cases "ensure_session e s")
  case (Pair res s1)
  have no: "\<not> is_rpc s (last (sent s1))"
    using session_requests_not_rpc [of s e] Pair by simp
  show ?thesis
    using assms Pair no
    by (auto simp: control_device_def send_def last_answer_def answer_at_def
          split: sum.splits option.splits prod.splits net_result.splits json_outcome.splits
            if_splits)
qed

lemma read_device_status_last:
  assumes "is_rpc s (last (sent (snd (read_device_status e s device_name))))"
  shows "case last_answer e (snd (read_device_status e s device_name)) of
      RequestException msg \<Rightarrow>
        (\<exists>ex. fst (read_device_status e s device_name) = Inl ex
           \<and> fst (error_response ex) = 500)
    | Response r \<Rightarrow>
        status_code r \<noteq> 200 \<longrightarrow>
        (\<exists>ex. fst (read_device_status e s device_name) = Inl ex
           \<and> fst (error_response ex) = status_code r)"
proof (cases "ensure_session e s")
  case (Pair res s1)
  have no: "\<not> is_rpc s (last (sent s1))"
    using session_requests_not_rpc [of s e] Pair by simp
  show ?thesis
  proof (cases res)
    case (Inl ex1)
    then show ?thesis using assms Pair no by (simp add: read_device_status_def)
  next
    case (Inr u)
    show ?thesis
    proof (cases "cfg_devices (config s1) device_name")
      case None
      then show ?thesis using assms Pair Inr no by (simp add: read_device_status_def)
    next
      case (Some dc)
      show ?thesis
      proof (cases "status_methods dc")
        case (Inl ex2)
        then show ?thesis using assms Pair Inr Some no by (simp add: read_device_status_def)
      next
        case methods: (Inr methods)
        then have out: "read_device_status e s device_name = query_methods e dc methods [] s1"
          using Pair Inr Some by (simp add: read_device_status_def)
        obtain posts where posts:
          "sent (snd (query_methods e dc methods [] s1)) = sent s1 @ posts"
          using query_methods_requests [of e dc methods "[]" s1] by blast
        have "posts \<noteq> []"
          using assms no by (auto simp: out posts)
        then have "length (sent s1) < length (sent (snd (query_methods e dc methods [] s1)))"
          by (simp add: posts)
        from query_methods_last [OF this] show ?thesis
          unfolding out .
      qed
    qed
  qed
qed

lemma route_outcomes:
  "fst (route_control_device e s device_name action level ac_mode temperature)
     = (case fst (control_device e s device_name action level ac_mode temperature) of
          Inl ex \<Rightarrow> Inl (error_response ex)
        | Inr j \<Rightarrow> Inr (JObj [(''status'', JStr ''success''), (''result'', j)]))"
  "snd (route_control_device e s device_name action level ac_mode temperature)
     = snd (control_device e s device_name action level ac_mode temperature)"
  "fst (route_get_device_status e s device_name)
     = (case fst (read_device_status e s device_name) of
          Inl ex \<Rightarrow> Inl (error_response ex)
        | Inr res \<Rightarrow> Inr (JObj [(''status'', JStr ''success''), (''result'', JObj res)]))"
  "snd (route_get_device_status e s device_name) = snd (read_device_status e s device_name)"
  by (simp_all add: route_control_device_def route_get_device_status_def
        split: prod.splits sum.splits)

lemma has_status_error [simp]:
  "has_status (Inl (error_response ex)) c = (fst (error_response ex) = c)"
  by (cases "error_response ex") (simp add: has_status_def)

text \<open>
  Claim C2, as amended. For every \<open>control_device\<close> and every \<open>device_status\<close> request
  whose last request sent is an RPC call: when that call failed with a
  \<open>RequestException\<close> (the connection failed), the caller gets an error response with
  status 500; when the gateway answered it with a status other than 200, the caller gets
  an error response with the gateway's own status code, 500 only if the gateway said 500.
\<close>

theorem rpc_failure_keeps_upstream_status:
  "rpc_failure_surfaced e s
     (route_control_device e s device_name action level ac_mode temperature)
   \<and> rpc_failure_surfaced e s (route_get_device_status e s device_name)"
proof
  show "rpc_failure_surfaced e s
     (route_control_device e s device_name action level ac_mode temperature)"
    unfolding rpc_failure_surfaced_def route_outcomes
  proof
    assume "is_rpc s (last (sent (snd (control_device e s device_name action level ac_mode
      temperature))))"
    from control_device_last [OF this] show
      "case last_answer e
          (snd (control_device e s device_name action level ac_mode temperature)) of
        Response r \<Rightarrow>
          status_code r \<noteq> 200 \<longrightarrow>
          has_status
            (case fst (control_device e s device_name action level ac_mode temperature) of
               Inl ex \<Rightarrow> Inl (error_response ex)
             | Inr j \<Rightarrow> Inr (JObj [(''status'', JStr ''success''), (''result'', j)]))
            (status_code r)
      | RequestException msg \<Rightarrow>
          has_status
            (case fst (control_device e s device_name action level ac_mode temperature) of
               Inl ex \<Rightarrow> Inl (error_response ex)
             | Inr j \<Rightarrow> Inr (JObj [(''status'', JStr ''success''), (''result'', j)]))
            500"
      by (auto split: net_result.splits)
  qed
next
  show "rpc_failure_surfaced e s (route_get_device_status e s device_name)"
    unfolding rpc_failure_surfaced_def route_outcomes
  proof
    assume "is_rpc s (last (sent (snd (read_device_status e s device_name))))"
    from read_device_status_last [OF this] show
      "case last_answer e (snd (read_device_status e s device_name)) of
        Response r \<Rightarrow>
          status_code r \<noteq> 200 \<longrightarrow>
          has_status
            (case fst (read_device_status e s device_name) of
               Inl ex \<Rightarrow> Inl (error_response ex)
             | Inr res \<Rightarrow> Inr (JObj [(''status'', JStr ''success''), (''result'', JObj res)]))
            (status_code r)
      | RequestException msg \<Rightarrow>
          has_status
            (case fst (read_device_status e s device_name) of
               Inl ex \<Rightarrow> Inl (error_response ex)
             | Inr res \<Rightarrow> Inr (JObj [(''status'', JStr ''success''), (''result'', JObj res)]))
            500"
      by (auto split: net_result.splits)
  qed
qed

theorem rpc_failure_keeps_upstream_status_witness:
  "is_rpc example_state
     (last (sent (snd (route_control_device (example_env [page 200]) example_state
                         ''LivingRoomLamp'' ''on'' None None None))))
   \<and> last_answer (example_env [page 200])
        (snd (route_control_device (example_env [page 200]) example_state
                ''LivingRoomLamp'' ''on'' None None None))
     = RequestException ''connection refused''
   \<and> fst (route_control_device (example_env [page 200]) example_state
            ''LivingRoomLamp'' ''on'' None None None)
     = Inl (500, ''Device control request failed: connection refused'')
   \<and> rpc_failure_surfaced (example_env [page 200]) example_state
        (route_control_device (example_env [page 200]) example_state
           ''LivingRoomLamp'' ''on'' None None None)
   \<and> is_rpc example_state
        (last (sent (snd (route_get_device_status (example_env [page 200, page 404])
                            example_state ''HallSwitch''))))
   \<and> last_answer (example_env [page 200, page 404])
        (snd (route_get_device_status (example_env [page 200, page 404])
                example_state ''HallSwitch''))
     = page 404
   \<and> fst (route_get_device_status (example_env [page 200, page 404]) example_state
            ''HallSwitch'')
     = Inl (404, ''Device status read failed'')
   \<and> rpc_failure_surfaced (example_env [page 200, page 404]) example_state
        (route_get_device_status (example_env [page 200, page 404]) example_state
           ''HallSwitch'')"
proof -
  note p1 = rpc_failure_keeps_upstream_status
    [of "example_env [page 200]" example_state "''LivingRoomLamp''" "''on''" None None None,
     THEN conjunct1]
  note p2 = rpc_failure_keeps_upstream_status
    [of "example_env [page 200, page 404]" example_state "''HallSwitch''" "''on''" None None None,
     THEN conjunct2]
  have a1: "is_rpc example_state
     (last (sent (snd (route_control_device (example_env [page 200]) example_state
                         ''LivingRoomLamp'' ''on'' None None None))))"
    by (simp add: run_defs log_defs example_defs)
  have a2: "last_answer (example_env [page 200])
        (snd (route_control_device (example_env [page 200]) example_state
                ''LivingRoomLamp'' ''on'' None None None))
     = RequestException ''connection refused''"
    by (simp add: run_defs log_defs example_defs)
  have a3: "fst (route_control_device (example_env [page 200]) example_state
            ''LivingRoomLamp'' ''on'' None None None)
     = Inl (500, ''Device control request failed: connection refused'')"
    by (simp add: run_defs log_defs example_defs)
  have b1: "is_rpc example_state
        (last (sent (snd (route_get_device_status (example_env [page 200, page 404])
                            example_state ''HallSwitch''))))"
    by (simp add: run_defs log_defs example_defs query_methods.simps)
  have b2: "last_answer (example_env [page 200, page 404])
        (snd (route_get_device_status (example_env [page 200, page 404])
                example_state ''HallSwitch''))
     = page 404"
    by (simp add: run_defs log_defs example_defs query_methods.simps)
  have b3: "fst (route_get_device_status (example_env [page 200, page 404]) example_state
            ''HallSwitch'')
     = Inl (404, ''Device status read failed'')"
    by (simp add: run_defs log_defs example_defs query_methods.simps)
  show ?thesis
    by (intro conjI a1 a2 a3 p1 b1 b2 b3 p2)
qed

text \<open>
  The claim as stated fails when the gateway answers the RPC call with a status other
  than 200 and 500: the backend raises \<open>HTTPException(status_code=response.status_code)\<close>
  and the caller sees the gateway's status, here 404.
\<close>

theorem gateway_status_404_surfaces_as_404:
  "last_answer (example_env [page 200, page 404])
     (snd (route_control_device (example_env [page 200, page 404]) example_state
             ''LivingRoomLamp'' ''on'' None None None))
     = page 404
   \<and> fst (route_control_device (example_env [page 200, page 404]) example_state
            ''LivingRoomLamp'' ''on'' None None None)
     = Inl (404, ''Device control failed'')
   \<and> response_status
        (fst (route_control_device (example_env [page 200, page 404]) example_state
                ''LivingRoomLamp'' ''on'' None None None)) \<noteq> 500
   \<and> fst (route_get_device_status (example_env [page 200, page 404]) example_state
            ''HallSwitch'')
     = Inl (404, ''Device status read failed'')
   \<and> response_status
        (fst (route_get_device_status (example_env [page 200, page 404]) example_state
                ''HallSwitch'')) \<noteq> 500"
  by (simp add: run_defs log_defs example_defs query_methods.simps response_status_def)

end
